theory Spec2Isabelle
  imports Complex_Main
begin

section \<open>The car-wash booking application (app.py)\<close>

text \<open>
  The program is a Streamlit script over an SQLite database. Its booking logic lives in
  four button handlers: "Create Booking" in \<^verbatim>\<open>page_customer_dashboard\<close>, and
  "Update Stage", "Save Assignment" and "Update Payment" in \<^verbatim>\<open>page_staff_dashboard\<close>.
  The database is modelled as a record of tables, each table a list of rows in rowid
  order. A handler is a function from the database, the widget selections and the
  clock readings to either a failure or the committed database. Every handler writes
  through one connection and commits last, so a handler that stops with an exception
  commits nothing.
\<close>

subsection \<open>Column types and rows (the schema of \<^verbatim>\<open>init_db\<close>)\<close>

text \<open>\<^verbatim>\<open>now_str()\<close> formats the wall clock as text; the clock reading is an input.\<close>

type_synonym timestamp = string

datatype role = Customer | Staff | Admin

datatype booking_status = Booked | InProgress | Completed | Cancelled

datatype payment_method = Cash | Card | Online

datatype payment_state = Unpaid | Paid | Partial | Refunded

record user_row =
  user_id :: nat
  full_name :: string
  phone :: string
  email :: "string option"
  password_hash :: string
  role :: role
  created_at :: timestamp

record vehicle_row =
  vehicle_id :: nat
  v_customer_id :: nat
  plate_no :: string
  v_make :: "string option"
  model :: "string option"
  color :: "string option"
  vehicle_type :: "string option"

text \<open>Column \<^verbatim>\<open>price\<close> is REAL; \<^verbatim>\<open>is_active\<close> is an INTEGER checked to be 0 or 1.\<close>

record package_row =
  package_id :: nat
  package_name :: string
  price :: real
  duration_minutes :: int
  is_active :: bool

record stage_row =
  stage_id :: nat
  stage_name :: string
  stage_order :: int

record booking_row =
  booking_id :: nat
  customer_id :: nat
  b_vehicle_id :: nat
  b_package_id :: nat
  booking_datetime :: timestamp
  scheduled_datetime :: "timestamp option"
  status :: booking_status
  current_stage_id :: "nat option"
  b_notes :: "string option"

record history_row =
  history_id :: nat
  h_booking_id :: nat
  h_stage_id :: nat
  start_time :: timestamp
  end_time :: "timestamp option"
  updated_by_staff_id :: nat

record assignment_row =
  a_booking_id :: nat
  staff_id :: nat
  assigned_at :: timestamp

record payment_row =
  payment_id :: nat
  p_booking_id :: nat
  amount :: real
  p_method :: payment_method
  payment_status :: payment_state
  paid_at :: "timestamp option"

text \<open>
  The tables, and the \<^verbatim>\<open>sqlite_sequence\<close> counters of the AUTOINCREMENT keys that
  \<^verbatim>\<open>init_db\<close> and the handlers insert into.
\<close>

record db =
  users :: "user_row list"
  vehicles :: "vehicle_row list"
  packages :: "package_row list"
  service_stages :: "stage_row list"
  bookings :: "booking_row list"
  booking_stage_history :: "history_row list"
  booking_staff_assignment :: "assignment_row list"
  payments :: "payment_row list"
  seq_bookings :: nat
  seq_history :: nat
  seq_payments :: nat
  seq_users :: nat
  seq_packages :: nat
  seq_stages :: nat

subsection \<open>Failures\<close>

text \<open>
  The script has no error type of its own. A handler either commits, or stops with an
  uncaught Python exception (\<open>Raised\<close>), or cannot be started at all because the page
  does not show its button or does not list the selection among the options of a
  select box (\<open>NotOffered\<close>).
\<close>

datatype exn = TypeError | KeyError | IntegrityError | OperationalError

datatype failure = NotOffered | Raised exn

definition raises :: "failure + db \<Rightarrow> bool" where
  "raises r = (case r of Inl (Raised e) \<Rightarrow> True | Inl NotOffered \<Rightarrow> False | Inr d \<Rightarrow> False)"

text \<open>The database after a handler: what it committed, or the old one when it did not commit.\<close>

definition committed :: "db \<Rightarrow> failure + db \<Rightarrow> db" where
  "committed d r = (case r of Inl e \<Rightarrow> d | Inr d' \<Rightarrow> d')"

subsection \<open>SQLite and Python helpers\<close>

text \<open>
  An AUTOINCREMENT key is one more than the largest key the table ever held (the
  \<^verbatim>\<open>sqlite_sequence\<close> counter) and the largest key it holds now. Keys are signed
  64-bit integers: once the largest key is \<open>2\<^sup>6\<^sup>3 - 1\<close> the table is full, and an
  INSERT stops with SQLITE_FULL, which Python raises as \<^verbatim>\<open>sqlite3.OperationalError\<close>,
  before any constraint is looked at.
\<close>

definition next_rowid :: "nat \<Rightarrow> nat list \<Rightarrow> nat" where
  "next_rowid s ids = Suc (max s (fold max ids 0))"

definition rowid_full :: "nat \<Rightarrow> nat list \<Rightarrow> bool" where
  "rowid_full s ids = (9223372036854775807 \<le> max s (fold max ids 0))"

fun fetchone :: "'a list \<Rightarrow> 'a option" where
  "fetchone [] = None"
| "fetchone (x # xs) = Some x"

text \<open>
  \<^verbatim>\<open>str.strip()\<close> and \<^verbatim>\<open>s or None\<close>. A character stands for a code point below 256;
  among these \<^verbatim>\<open>str.isspace()\<close> holds of 9 to 13, 28 to 32, 133 (NEXT LINE) and 160
  (NO-BREAK SPACE).
\<close>

definition isspace :: "char \<Rightarrow> bool" where
  "isspace c =
     (let n = (of_char c :: nat)
      in (9 \<le> n \<and> n \<le> 13) \<or> (28 \<le> n \<and> n \<le> 32) \<or> n = 133 \<or> n = 160)"

definition strip :: "string \<Rightarrow> string" where
  "strip s = rev (dropWhile isspace (rev (dropWhile isspace s)))"

definition or_none :: "string \<Rightarrow> string option" where
  "or_none s = (if s = [] then None else Some s)"

subsection \<open>Queries\<close>

text \<open>\<^verbatim>\<open>SELECT stage_id, stage_name FROM service_stages ORDER BY stage_order\<close>\<close>

definition get_stage_list :: "db \<Rightarrow> (nat \<times> string) list" where
  "get_stage_list d = map (\<lambda>s. (stage_id s, stage_name s)) (sort_key stage_order (service_stages d))"

text \<open>
  \<^verbatim>\<open>stage_map = {name: sid for sid, name in stages}\<close>: a later pair overrides an
  earlier one with the same name.
\<close>

definition stage_map :: "(nat \<times> string) list \<Rightarrow> string \<Rightarrow> nat option" where
  "stage_map stages = map_of (rev (map (\<lambda>(sid, name). (name, sid)) stages))"

text \<open>\<^verbatim>\<open>SELECT ... FROM packages WHERE is_active=1 ORDER BY price\<close>\<close>

definition get_active_packages :: "db \<Rightarrow> package_row list" where
  "get_active_packages d = sort_key price (filter is_active (packages d))"

text \<open>\<^verbatim>\<open>SELECT ... FROM vehicles WHERE customer_id=? ORDER BY vehicle_id DESC\<close>\<close>

definition customer_vehicles :: "db \<Rightarrow> nat \<Rightarrow> vehicle_row list" where
  "customer_vehicles d uid = rev (sort_key vehicle_id (filter (\<lambda>v. v_customer_id v = uid) (vehicles d)))"

text \<open>\<^verbatim>\<open>SELECT stage_id FROM service_stages ORDER BY stage_order LIMIT 1\<close>, then \<^verbatim>\<open>fetchone()\<close>\<close>

definition first_stage :: "db \<Rightarrow> nat option" where
  "first_stage d = map_option stage_id (fetchone (sort_key stage_order (service_stages d)))"

text \<open>\<^verbatim>\<open>SELECT price FROM packages WHERE package_id=?\<close>, then \<^verbatim>\<open>fetchone()\<close>\<close>

definition package_price :: "db \<Rightarrow> nat \<Rightarrow> real option" where
  "package_price d pid = map_option price (fetchone (filter (\<lambda>p. package_id p = pid) (packages d)))"

text \<open>\<^verbatim>\<open>SELECT stage_order FROM service_stages WHERE stage_id=?\<close>, then \<^verbatim>\<open>fetchone()\<close>\<close>

definition stage_order_of :: "db \<Rightarrow> nat \<Rightarrow> int option" where
  "stage_order_of d sid = map_option stage_order (fetchone (filter (\<lambda>s. stage_id s = sid) (service_stages d)))"

text \<open>\<^verbatim>\<open>SELECT MAX(stage_order) FROM service_stages\<close>: NULL on an empty table.\<close>

definition max_stage_order :: "db \<Rightarrow> int option" where
  "max_stage_order d = (case map stage_order (service_stages d) of [] \<Rightarrow> None | x # xs \<Rightarrow> Some (fold max xs x))"

text \<open>\<^verbatim>\<open>SELECT booking_id FROM bookings WHERE status IN ('Booked','InProgress') ORDER BY booking_id ASC\<close>\<close>

definition active_booking_ids :: "db \<Rightarrow> nat list" where
  "active_booking_ids d =
     map booking_id (sort_key booking_id (filter (\<lambda>b. status b = Booked \<or> status b = InProgress) (bookings d)))"

text \<open>\<^verbatim>\<open>SELECT current_stage_id, status FROM bookings WHERE booking_id=?\<close>, then \<^verbatim>\<open>fetchone()\<close>\<close>

definition current_of :: "db \<Rightarrow> nat \<Rightarrow> (nat option \<times> booking_status) option" where
  "current_of d bid =
     map_option (\<lambda>b. (current_stage_id b, status b)) (fetchone (filter (\<lambda>b. booking_id b = bid) (bookings d)))"

text \<open>\<^verbatim>\<open>SELECT booking_id FROM bookings ORDER BY booking_id DESC\<close>\<close>

definition all_booking_ids :: "db \<Rightarrow> nat list" where
  "all_booking_ids d = rev (sort (map booking_id (bookings d)))"

text \<open>
  \<^verbatim>\<open>SELECT user_id, full_name, role FROM users WHERE role IN ('Staff','Admin') ORDER BY full_name\<close>.
  The handlers use the rows only to look an identifier up, so the order is left out.
\<close>

definition staff_rows :: "db \<Rightarrow> user_row list" where
  "staff_rows d = filter (\<lambda>u. role u = Staff \<or> role u = Admin) (users d)"

text \<open>\<^verbatim>\<open>SELECT amount, method, payment_status, paid_at FROM payments WHERE booking_id=?\<close>, then \<^verbatim>\<open>fetchone()\<close>\<close>

definition payment_of :: "db \<Rightarrow> nat \<Rightarrow> payment_row option" where
  "payment_of d bid = fetchone (filter (\<lambda>p. p_booking_id p = bid) (payments d))"

subsection \<open>Inserts, with the constraints of the schema\<close>

text \<open>
  \<^verbatim>\<open>PRAGMA foreign_keys = ON\<close>: an insert whose foreign key, primary key, UNIQUE or
  CHECK constraint fails raises \<^verbatim>\<open>sqlite3.IntegrityError\<close> and inserts nothing, and so
  does an insert into a full AUTOINCREMENT table, with \<^verbatim>\<open>sqlite3.OperationalError\<close>.
\<close>

definition insert_booking ::
  "db \<Rightarrow> nat \<Rightarrow> nat \<Rightarrow> nat \<Rightarrow> timestamp \<Rightarrow> timestamp option \<Rightarrow> booking_status \<Rightarrow> nat option
     \<Rightarrow> string option \<Rightarrow> failure + (db \<times> nat)" where
  "insert_booking d cust veh pkg bdt sdt st stg nts =
     (if rowid_full (seq_bookings d) (map booking_id (bookings d)) then Inl (Raised OperationalError)
      else if cust \<in> set (map user_id (users d)) \<and> veh \<in> set (map vehicle_id (vehicles d))
         \<and> pkg \<in> set (map package_id (packages d))
         \<and> (case stg of None \<Rightarrow> True | Some s \<Rightarrow> s \<in> set (map stage_id (service_stages d)))
      then (let rowid = next_rowid (seq_bookings d) (map booking_id (bookings d)) in
            Inr (d\<lparr>bookings := bookings d @
                     [\<lparr>booking_id = rowid, customer_id = cust, b_vehicle_id = veh, b_package_id = pkg,
                       booking_datetime = bdt, scheduled_datetime = sdt, status = st,
                       current_stage_id = stg, b_notes = nts\<rparr>],
                   seq_bookings := rowid\<rparr>, rowid))
      else Inl (Raised IntegrityError))"

definition insert_payment ::
  "db \<Rightarrow> nat \<Rightarrow> real \<Rightarrow> payment_method \<Rightarrow> payment_state \<Rightarrow> timestamp option \<Rightarrow> failure + db" where
  "insert_payment d bid amt m st pa =
     (if rowid_full (seq_payments d) (map payment_id (payments d)) then Inl (Raised OperationalError)
      else if bid \<in> set (map p_booking_id (payments d)) then Inl (Raised IntegrityError)
      else if amt < 0 then Inl (Raised IntegrityError)
      else if bid \<notin> set (map booking_id (bookings d)) then Inl (Raised IntegrityError)
      else (let rowid = next_rowid (seq_payments d) (map payment_id (payments d)) in
            Inr (d\<lparr>payments := payments d @
                     [\<lparr>payment_id = rowid, p_booking_id = bid, amount = amt, p_method = m,
                       payment_status = st, paid_at = pa\<rparr>],
                   seq_payments := rowid\<rparr>)))"

definition insert_history ::
  "db \<Rightarrow> nat \<Rightarrow> nat \<Rightarrow> timestamp \<Rightarrow> timestamp option \<Rightarrow> nat \<Rightarrow> failure + db" where
  "insert_history d bid sid st en staff =
     (if rowid_full (seq_history d) (map history_id (booking_stage_history d))
      then Inl (Raised OperationalError)
      else if bid \<in> set (map booking_id (bookings d)) \<and> sid \<in> set (map stage_id (service_stages d))
         \<and> staff \<in> set (map user_id (users d))
      then (let rowid = next_rowid (seq_history d) (map history_id (booking_stage_history d)) in
            Inr (d\<lparr>booking_stage_history := booking_stage_history d @
                     [\<lparr>history_id = rowid, h_booking_id = bid, h_stage_id = sid, start_time = st,
                       end_time = en, updated_by_staff_id = staff\<rparr>],
                   seq_history := rowid\<rparr>))
      else Inl (Raised IntegrityError))"

definition insert_assignment :: "db \<Rightarrow> nat \<Rightarrow> nat \<Rightarrow> timestamp \<Rightarrow> failure + db" where
  "insert_assignment d bid sid t =
     (if (bid, sid) \<in> set (map (\<lambda>a. (a_booking_id a, staff_id a)) (booking_staff_assignment d))
      then Inl (Raised IntegrityError)
      else if bid \<notin> set (map booking_id (bookings d)) \<or> sid \<notin> set (map user_id (users d))
      then Inl (Raised IntegrityError)
      else Inr (d\<lparr>booking_staff_assignment := booking_staff_assignment d @
                    [\<lparr>a_booking_id = bid, staff_id = sid, assigned_at = t\<rparr>]\<rparr>))"

subsection \<open>Seeding (init_db, lines 154-181)\<close>

text \<open>
  \<^verbatim>\<open>main\<close> runs \<^verbatim>\<open>init_db\<close> before it shows a page. The tables exist after the
  first run, so \<^verbatim>\<open>CREATE TABLE IF NOT EXISTS\<close> changes nothing; what is left are the
  three seeding steps and the commit. The inserts check the constraints of the schema.
\<close>

definition insert_stage :: "db \<Rightarrow> string \<Rightarrow> int \<Rightarrow> failure + db" where
  "insert_stage d name ord =
     (if rowid_full (seq_stages d) (map stage_id (service_stages d)) then Inl (Raised OperationalError)
      else if name \<in> set (map stage_name (service_stages d))
              \<or> ord \<in> set (map stage_order (service_stages d)) \<or> \<not> 0 < ord
      then Inl (Raised IntegrityError)
      else (let rowid = next_rowid (seq_stages d) (map stage_id (service_stages d)) in
            Inr (d\<lparr>service_stages := service_stages d @
                     [\<lparr>stage_id = rowid, stage_name = name, stage_order = ord\<rparr>],
                   seq_stages := rowid\<rparr>)))"

definition insert_package :: "db \<Rightarrow> string \<Rightarrow> real \<Rightarrow> int \<Rightarrow> bool \<Rightarrow> failure + db" where
  "insert_package d name pr dur act =
     (if rowid_full (seq_packages d) (map package_id (packages d)) then Inl (Raised OperationalError)
      else if name \<in> set (map package_name (packages d)) \<or> pr < 0 \<or> \<not> 0 < dur
      then Inl (Raised IntegrityError)
      else (let rowid = next_rowid (seq_packages d) (map package_id (packages d)) in
            Inr (d\<lparr>packages := packages d @
                     [\<lparr>package_id = rowid, package_name = name, price = pr, duration_minutes = dur,
                       is_active = act\<rparr>],
                   seq_packages := rowid\<rparr>)))"

text \<open>UNIQUE on \<^verbatim>\<open>email\<close> lets any number of rows hold NULL.\<close>

definition insert_user ::
  "db \<Rightarrow> string \<Rightarrow> string \<Rightarrow> string option \<Rightarrow> string \<Rightarrow> role \<Rightarrow> timestamp \<Rightarrow> failure + db" where
  "insert_user d name ph em pw rl now =
     (if rowid_full (seq_users d) (map user_id (users d)) then Inl (Raised OperationalError)
      else if ph \<in> set (map phone (users d)) \<or> (em \<noteq> None \<and> em \<in> set (map email (users d)))
      then Inl (Raised IntegrityError)
      else (let rowid = next_rowid (seq_users d) (map user_id (users d)) in
            Inr (d\<lparr>users := users d @
                     [\<lparr>user_id = rowid, full_name = name, phone = ph, email = em,
                       password_hash = pw, role = rl, created_at = now\<rparr>],
                   seq_users := rowid\<rparr>)))"

text \<open>\<^verbatim>\<open>cur.executemany\<close>: one insert after the other, stopping at the first that raises.\<close>

fun executemany :: "(db \<Rightarrow> 'a \<Rightarrow> failure + db) \<Rightarrow> db \<Rightarrow> 'a list \<Rightarrow> failure + db" where
  "executemany ins d [] = Inr d"
| "executemany ins d (x # xs) =
     (case ins d x of Inl e \<Rightarrow> Inl e | Inr d' \<Rightarrow> executemany ins d' xs)"

text \<open>\<^verbatim>\<open>hash_password("admin123")\<close>: the SHA-256 digest, in hexadecimal.\<close>

definition admin_password_hash :: string where
  "admin_password_hash = ''240be518fabd2724ddb6f04eeb1da5967448d7e831c08c8fa822809f74c720a9''"

definition init_db :: "db \<Rightarrow> timestamp \<Rightarrow> failure + db" where
  "init_db d now =
     (case (if service_stages d = []
            then executemany (\<lambda>d (name, ord). insert_stage d name ord) d
                   [(''Washing'', 1), (''Drying'', 2), (''Polishing'', 3), (''Completed'', 4)]
            else Inr d) of
        Inl e \<Rightarrow> Inl e
      | Inr d1 \<Rightarrow>
          (case (if packages d1 = []
                 then executemany (\<lambda>d (name, pr, dur, act). insert_package d name pr dur act) d1
                        [(''Basic Wash'', 500, 20, True), (''Standard Wash'', 800, 35, True),
                         (''Premium Wash'', 1200, 50, True)]
                 else Inr d1) of
             Inl e \<Rightarrow> Inl e
           | Inr d2 \<Rightarrow>
               if filter (\<lambda>u. role u = Admin) (users d2) = []
               then insert_user d2 ''Admin'' ''0300-0000000'' (Some ''admin@carwash.local'')
                      admin_password_hash Admin now
               else Inr d2))"

subsection \<open>Create Booking (page_customer_dashboard, lines 293-316)\<close>

text \<open>
  The body of the button. \<^verbatim>\<open>cur.fetchone()[0]\<close> raises TypeError when the query has
  no row. \<^verbatim>\<open>float(pkg_price)\<close> is the identity on a value of a REAL column.
\<close>

definition create_booking ::
  "db \<Rightarrow> nat \<Rightarrow> nat \<Rightarrow> nat \<Rightarrow> string \<Rightarrow> string \<Rightarrow> timestamp \<Rightarrow> failure + db" where
  "create_booking d uid vid pid scheduled nts now =
     (case first_stage d of
        None \<Rightarrow> Inl (Raised TypeError)
      | Some first_stage_id \<Rightarrow>
          (case insert_booking d uid vid pid now (or_none (strip scheduled)) Booked
                  (Some first_stage_id) (or_none (strip nts)) of
             Inl e \<Rightarrow> Inl e
           | Inr (d1, bid) \<Rightarrow>
               (case package_price d1 pid of
                  None \<Rightarrow> Inl (Raised TypeError)
                | Some pkg_price \<Rightarrow> insert_payment d1 bid pkg_price Cash Unpaid None)))"

text \<open>
  The page around the button (lines 243-291): it returns before the form when the
  customer has no vehicle or no package is active, and the two select boxes offer the
  customer's own vehicles and the active packages. Their labels determine the
  identifiers, so the selection is modelled by the identifier.
\<close>

definition page_create_booking ::
  "db \<Rightarrow> nat \<Rightarrow> nat \<Rightarrow> nat \<Rightarrow> string \<Rightarrow> string \<Rightarrow> timestamp \<Rightarrow> failure + db" where
  "page_create_booking d uid vid pid scheduled nts now =
     (let vs = customer_vehicles d uid; pkgs = get_active_packages d in
      if vs = [] then Inl NotOffered
      else if pkgs = [] then Inl NotOffered
      else if vid \<notin> set (map vehicle_id vs) \<or> pid \<notin> set (map package_id pkgs) then Inl NotOffered
      else create_booking d uid vid pid scheduled nts now)"

subsection \<open>Update Stage (page_staff_dashboard, lines 435-476)\<close>

text \<open>
  \<^verbatim>\<open>UPDATE booking_stage_history SET end_time=? WHERE booking_id=? AND stage_id=? AND end_time IS NULL\<close>
\<close>

definition close_previous :: "history_row list \<Rightarrow> nat \<Rightarrow> nat \<Rightarrow> timestamp \<Rightarrow> history_row list" where
  "close_previous hs bid sid now =
     map (\<lambda>h. if h_booking_id h = bid \<and> h_stage_id h = sid \<and> end_time h = None
              then h\<lparr>end_time := Some now\<rparr> else h) hs"

text \<open>\<^verbatim>\<open>UPDATE bookings SET current_stage_id=?, status=? WHERE booking_id=?\<close>\<close>

definition set_stage :: "booking_row list \<Rightarrow> nat \<Rightarrow> nat \<Rightarrow> booking_status \<Rightarrow> booking_row list" where
  "set_stage bs bid sid st =
     map (\<lambda>b. if booking_id b = bid then b\<lparr>current_stage_id := Some sid, status := st\<rparr> else b) bs"

text \<open>
  The body of the button, with the two readings of the clock. The stage written to
  the booking was found in \<^verbatim>\<open>service_stages\<close> by the query of its order, so the
  foreign key of the update holds.
\<close>

definition update_stage ::
  "db \<Rightarrow> nat \<Rightarrow> nat option \<Rightarrow> string \<Rightarrow> bool \<Rightarrow> nat \<Rightarrow> timestamp \<Rightarrow> timestamp \<Rightarrow> failure + db" where
  "update_stage d bid cur_stage new_stage_name end_prev staff now1 now2 =
     (let d1 = (case cur_stage of
                  None \<Rightarrow> d
                | Some cs \<Rightarrow>
                    if end_prev
                    then d\<lparr>booking_stage_history := close_previous (booking_stage_history d) bid cs now1\<rparr>
                    else d) in
      case stage_map (get_stage_list d1) new_stage_name of
        None \<Rightarrow> Inl (Raised KeyError)
      | Some new_stage_id \<Rightarrow>
          (case stage_order_of d1 new_stage_id of
             None \<Rightarrow> Inl (Raised TypeError)
           | Some so \<Rightarrow>
               (let new_booking_status = (if Some so = max_stage_order d1 then Completed else InProgress);
                    d2 = d1\<lparr>bookings := set_stage (bookings d1) bid new_stage_id new_booking_status\<rparr>
                in insert_history d2 bid new_stage_id now2 None staff)))"

text \<open>
  The page around the button (lines 408-433): the booking is chosen in a select box
  that lists the bookings with status Booked or InProgress, the new stage in a select
  box of the stage names, and the current stage is read before the button.
\<close>

definition page_update_stage ::
  "db \<Rightarrow> nat \<Rightarrow> nat \<Rightarrow> string \<Rightarrow> bool \<Rightarrow> timestamp \<Rightarrow> timestamp \<Rightarrow> failure + db" where
  "page_update_stage d staff bid new_stage_name end_prev now1 now2 =
     (let booking_ids = active_booking_ids d in
      if booking_ids = [] then Inl NotOffered
      else if bid \<notin> set booking_ids then Inl NotOffered
      else (let stages = get_stage_list d in
            case current_of d bid of
              None \<Rightarrow> Inl (Raised TypeError)
            | Some (cur_stage, cur_status) \<Rightarrow>
                if new_stage_name \<notin> set (map snd stages) then Inl NotOffered
                else update_stage d bid cur_stage new_stage_name end_prev staff now1 now2))"

subsection \<open>Save Assignment (page_staff_dashboard, lines 497-509)\<close>

text \<open>
  The loop over the chosen staff, each insert with its own reading of the clock:
  \<^verbatim>\<open>except sqlite3.IntegrityError: pass\<close> goes on with the next one.
\<close>

fun save_assignment :: "db \<Rightarrow> nat \<Rightarrow> (nat \<times> timestamp) list \<Rightarrow> failure + db" where
  "save_assignment d bsel [] = Inr d"
| "save_assignment d bsel ((sid, t) # rest) =
     (case insert_assignment d bsel sid t of
        Inl (Raised IntegrityError) \<Rightarrow> save_assignment d bsel rest
      | Inl e \<Rightarrow> Inl e
      | Inr d' \<Rightarrow> save_assignment d' bsel rest)"

text \<open>
  The page around the button (lines 485-496): the booking comes from a select box of
  all bookings, the staff from a multiselect of the users with role Staff or Admin,
  and both stand under \<^verbatim>\<open>if bsel and staff_rows\<close>.
\<close>

definition assignment_form :: "db \<Rightarrow> nat \<Rightarrow> bool" where
  "assignment_form d bsel = (bsel \<in> set (all_booking_ids d) \<and> bsel \<noteq> 0 \<and> staff_rows d \<noteq> [])"

definition page_save_assignment :: "db \<Rightarrow> nat \<Rightarrow> (nat \<times> timestamp) list \<Rightarrow> failure + db" where
  "page_save_assignment d bsel chosen =
     (if \<not> assignment_form d bsel then Inl NotOffered
      else if \<not> (distinct (map fst chosen) \<and> set (map fst chosen) \<subseteq> set (map user_id (staff_rows d)))
      then Inl NotOffered
      else save_assignment d bsel chosen)"

subsection \<open>Update Payment (page_staff_dashboard, lines 527-543)\<close>

text \<open>\<^verbatim>\<open>paid_time = now_str() if new_status == "Paid" else None\<close>\<close>

definition paid_time :: "payment_state \<Rightarrow> timestamp \<Rightarrow> timestamp option" where
  "paid_time new_status now = (if new_status = Paid then Some now else None)"

text \<open>\<^verbatim>\<open>UPDATE payments SET method=?, payment_status=?, paid_at=? WHERE booking_id=?\<close>\<close>

definition update_payment :: "db \<Rightarrow> nat \<Rightarrow> payment_method \<Rightarrow> payment_state \<Rightarrow> timestamp \<Rightarrow> db" where
  "update_payment d bsel new_method new_status now =
     d\<lparr>payments :=
         map (\<lambda>p. if p_booking_id p = bsel
                  then p\<lparr>p_method := new_method, payment_status := new_status,
                         paid_at := paid_time new_status now\<rparr>
                  else p) (payments d)\<rparr>"

text \<open>The button stands under \<^verbatim>\<open>if bsel and staff_rows\<close> and under \<^verbatim>\<open>if pay\<close>.\<close>

definition page_update_payment ::
  "db \<Rightarrow> nat \<Rightarrow> payment_method \<Rightarrow> payment_state \<Rightarrow> timestamp \<Rightarrow> failure + db" where
  "page_update_payment d bsel new_method new_status now =
     (if \<not> assignment_form d bsel then Inl NotOffered
      else (case payment_of d bsel of
              None \<Rightarrow> Inl NotOffered
            | Some pay \<Rightarrow> Inr (update_payment d bsel new_method new_status now)))"


subsection \<open>Notions used in the statements\<close>

text \<open>
  The history table after the first step of Update Stage: the open entries of the
  booking at its current stage are closed when the box "End previous stage" is ticked
  and the booking has a current stage, and nothing is touched otherwise.
\<close>

definition closed_history :: "db \<Rightarrow> nat \<Rightarrow> nat option \<Rightarrow> bool \<Rightarrow> timestamp \<Rightarrow> history_row list" where
  "closed_history d bid cur_stage end_prev now1 =
     (case cur_stage of
        None \<Rightarrow> booking_stage_history d
      | Some cs \<Rightarrow> if end_prev then close_previous (booking_stage_history d) bid cs now1
                   else booking_stage_history d)"

text \<open>
  The foreign key of \<^verbatim>\<open>booking_stage_history.booking_id\<close>: every history row belongs
  to a booking of the table.
\<close>

definition history_refs_bookings :: "db \<Rightarrow> bool" where
  "history_refs_bookings d =
     list_all (\<lambda>h. h_booking_id h \<in> set (map booking_id (bookings d))) (booking_stage_history d)"

text \<open>The open history entries of a booking: those whose \<^verbatim>\<open>end_time\<close> is NULL.\<close>

definition open_entries :: "db \<Rightarrow> nat \<Rightarrow> history_row list" where
  "open_entries d bid =
     filter (\<lambda>h. h_booking_id h = bid \<and> end_time h = None) (booking_stage_history d)"

text \<open>Every open entry of the booking is an entry of the stage the booking stands at.\<close>

definition open_at_current :: "db \<Rightarrow> nat \<Rightarrow> bool" where
  "open_at_current d bid =
     (case current_of d bid of
        None \<Rightarrow> open_entries d bid = []
      | Some (cur_stage, cur_status) \<Rightarrow>
          list_all (\<lambda>h. cur_stage = Some (h_stage_id h)) (open_entries d bid))"

text \<open>An entry the UPDATE of Update Stage selects.\<close>

definition open_for :: "nat \<Rightarrow> nat \<Rightarrow> history_row \<Rightarrow> bool" where
  "open_for bid sid h = (h_booking_id h = bid \<and> h_stage_id h = sid \<and> end_time h = None)"

text \<open>
  Step 2 of advanceStage in the words of the specification: "find the most recent
  history entry for (booking, current_stage) with null end_time and set its
  end_time = now. (No-op, not an error, if none exists.)" The most recent entry is the
  one with the largest identifier.
\<close>

definition spec_most_recent_open :: "history_row list \<Rightarrow> nat \<Rightarrow> nat \<Rightarrow> nat option" where
  "spec_most_recent_open hs bid sid =
     (case map history_id (filter (open_for bid sid) hs) of
        [] \<Rightarrow> None
      | k # ks \<Rightarrow> Some (fold max ks k))"

definition spec_close_most_recent :: "history_row list \<Rightarrow> nat \<Rightarrow> nat \<Rightarrow> timestamp \<Rightarrow> history_row list" where
  "spec_close_most_recent hs bid sid now =
     (case spec_most_recent_open hs bid sid of
        None \<Rightarrow> hs
      | Some k \<Rightarrow> map (\<lambda>h. if open_for bid sid h \<and> history_id h = k
                            then h\<lparr>end_time := Some now\<rparr> else h) hs)"

text \<open>A sequence of Update Payment requests, each on the database the one before left.\<close>

fun update_payments :: "db \<Rightarrow> (nat \<times> payment_method \<times> payment_state \<times> timestamp) list \<Rightarrow> db" where
  "update_payments d [] = d"
| "update_payments d ((bsel, new_method, new_status, now) # rest) =
     update_payments (committed d (page_update_payment d bsel new_method new_status now)) rest"

text \<open>The primary key of \<^verbatim>\<open>booking_staff_assignment\<close>: no pair occurs twice.\<close>

definition assignment_keys :: "db \<Rightarrow> (nat \<times> nat) list" where
  "assignment_keys d = map (\<lambda>a. (a_booking_id a, staff_id a)) (booking_staff_assignment d)"

text \<open>What the UPDATE of Update Payment does to one row.\<close>

definition set_payment ::
  "nat \<Rightarrow> payment_method \<Rightarrow> payment_state \<Rightarrow> timestamp \<Rightarrow> payment_row \<Rightarrow> payment_row" where
  "set_payment bsel m st now p =
     (if p_booking_id p = bsel
      then p\<lparr>p_method := m, payment_status := st, paid_at := paid_time st now\<rparr> else p)"

text \<open>
  What \<^verbatim>\<open>init_db\<close> has established when a page runs: the stage table and the package
  table are not empty, and some user has role Admin.
\<close>

definition seeded :: "db \<Rightarrow> bool" where
  "seeded d = (service_stages d \<noteq> [] \<and> packages d \<noteq> [] \<and> filter (\<lambda>u. role u = Admin) (users d) \<noteq> [])"

text \<open>
  The rows a Save Assignment request adds: one for each chosen staff member whose pair
  with the booking is not in the table yet, in the order chosen.
\<close>

definition new_rows :: "db \<Rightarrow> nat \<Rightarrow> (nat \<times> timestamp) list \<Rightarrow> assignment_row list" where
  "new_rows d bsel chosen =
     map (\<lambda>(sid, t). \<lparr>a_booking_id = bsel, staff_id = sid, assigned_at = t\<rparr>)
       (filter (\<lambda>(sid, t). (bsel, sid) \<notin> set (assignment_keys d)) chosen)"

subsection \<open>Example databases\<close>

text \<open>
  The database after \<^verbatim>\<open>init_db\<close> (four seeded stages, three seeded packages, the
  seeded admin), with two customers, a vehicle of each, a staff member and a retired
  package added through the forms.
\<close>

definition demo_users :: "user_row list" where
  "demo_users =
     [\<lparr>user_id = 1, full_name = ''Admin'', phone = ''0300-0000000'', email = Some ''admin@carwash.local'',
       password_hash = ''8c69'', role = Admin, created_at = ''2025-12-27 09:00:00''\<rparr>,
      \<lparr>user_id = 2, full_name = ''Ayesha'', phone = ''0301-1111111'', email = None,
       password_hash = ''5e88'', role = Customer, created_at = ''2025-12-27 09:05:00''\<rparr>,
      \<lparr>user_id = 3, full_name = ''Bilal'', phone = ''0302-2222222'', email = None,
       password_hash = ''2bb8'', role = Staff, created_at = ''2025-12-27 09:10:00''\<rparr>,
      \<lparr>user_id = 4, full_name = ''Danish'', phone = ''0303-3333333'', email = None,
       password_hash = ''9f3c'', role = Customer, created_at = ''2025-12-27 09:15:00''\<rparr>]"

definition demo_stages :: "stage_row list" where
  "demo_stages =
     [\<lparr>stage_id = 1, stage_name = ''Washing'', stage_order = 1\<rparr>,
      \<lparr>stage_id = 2, stage_name = ''Drying'', stage_order = 2\<rparr>,
      \<lparr>stage_id = 3, stage_name = ''Polishing'', stage_order = 3\<rparr>,
      \<lparr>stage_id = 4, stage_name = ''Completed'', stage_order = 4\<rparr>]"

definition demo_packages :: "package_row list" where
  "demo_packages =
     [\<lparr>package_id = 1, package_name = ''Basic Wash'', price = 500, duration_minutes = 20, is_active = True\<rparr>,
      \<lparr>package_id = 2, package_name = ''Standard Wash'', price = 800, duration_minutes = 35, is_active = True\<rparr>,
      \<lparr>package_id = 3, package_name = ''Premium Wash'', price = 1200, duration_minutes = 50, is_active = True\<rparr>,
      \<lparr>package_id = 4, package_name = ''Retired Wash'', price = 300, duration_minutes = 10, is_active = False\<rparr>]"

definition demo_db :: db where
  "demo_db =
     \<lparr>users = demo_users,
      vehicles = [\<lparr>vehicle_id = 1, v_customer_id = 2, plate_no = ''LEA-123'', v_make = None,
                   model = None, color = None, vehicle_type = None\<rparr>,
                  \<lparr>vehicle_id = 2, v_customer_id = 4, plate_no = ''LEB-456'', v_make = None,
                   model = None, color = None, vehicle_type = None\<rparr>],
      packages = demo_packages, service_stages = demo_stages, bookings = [],
      booking_stage_history = [], booking_staff_assignment = [], payments = [],
      seq_bookings = 0, seq_history = 0, seq_payments = 0,
      seq_users = 4, seq_packages = 4, seq_stages = 4\<rparr>"

text \<open>The customer books the basic wash for her vehicle.\<close>

definition demo_booked :: db where
  "demo_booked = committed demo_db (page_create_booking demo_db 2 1 1 [] ''wax'' ''2025-12-27 10:00:00'')"

text \<open>The staff member moves the booking to Drying and then to the last stage.\<close>

definition demo_drying :: db where
  "demo_drying = committed demo_booked
     (page_update_stage demo_booked 3 1 ''Drying'' True ''2025-12-27 10:20:00'' ''2025-12-27 10:20:01'')"

definition demo_done :: db where
  "demo_done = committed demo_drying
     (page_update_stage demo_drying 3 1 ''Completed'' True ''2025-12-27 10:40:00'' ''2025-12-27 10:40:01'')"

text \<open>The customer books again, the standard wash, while the first booking has a history.\<close>

definition demo_second :: db where
  "demo_second = committed demo_done
     (page_create_booking demo_done 2 1 2 ''2025-12-28 15:30'' [] ''2025-12-27 11:00:00'')"

text \<open>
  The same first booking, advanced with the box "End previous stage" unticked: to
  Drying, on to Polishing, and then back to Drying with the box ticked.
\<close>

definition loose_drying :: db where
  "loose_drying = committed demo_booked
     (page_update_stage demo_booked 3 1 ''Drying'' False ''2025-12-27 10:20:00'' ''2025-12-27 10:20:01'')"

definition loose_polishing :: db where
  "loose_polishing = committed loose_drying
     (page_update_stage loose_drying 3 1 ''Polishing'' False ''2025-12-27 10:30:00'' ''2025-12-27 10:30:01'')"

definition loose_back :: db where
  "loose_back = committed loose_polishing
     (page_update_stage loose_polishing 3 1 ''Drying'' True ''2025-12-27 10:35:00'' ''2025-12-27 10:35:01'')"

text \<open>
  Or saved at Drying a second time with the box unticked, and then moved to Polishing
  with the box ticked.
\<close>

definition twice_drying :: db where
  "twice_drying = committed loose_drying
     (page_update_stage loose_drying 3 1 ''Drying'' False ''2025-12-27 10:25:00'' ''2025-12-27 10:25:01'')"

definition twice_closed :: db where
  "twice_closed = committed twice_drying
     (page_update_stage twice_drying 3 1 ''Polishing'' True ''2025-12-27 10:30:00'' ''2025-12-27 10:30:01'')"

text \<open>
  A database whose stage table was filled in the opposite order, so that the stage of
  largest order has the smallest identifier, and the first booking made on it.
\<close>

definition mirror_stages :: "stage_row list" where
  "mirror_stages =
     [\<lparr>stage_id = 1, stage_name = ''Completed'', stage_order = 4\<rparr>,
      \<lparr>stage_id = 2, stage_name = ''Polishing'', stage_order = 3\<rparr>,
      \<lparr>stage_id = 3, stage_name = ''Drying'', stage_order = 2\<rparr>,
      \<lparr>stage_id = 4, stage_name = ''Washing'', stage_order = 1\<rparr>]"

definition mirror_db :: db where
  "mirror_db = demo_db\<lparr>service_stages := mirror_stages\<rparr>"

definition mirror_booked :: db where
  "mirror_booked = committed mirror_db
     (page_create_booking mirror_db 2 1 1 [] [] ''2025-12-27 10:00:00'')"

definition mirror_drying :: db where
  "mirror_drying = committed mirror_booked
     (page_update_stage mirror_booked 3 1 ''Drying'' True ''2025-12-27 10:20:00'' ''2025-12-27 10:20:01'')"

definition mirror_done :: db where
  "mirror_done = committed mirror_drying
     (page_update_stage mirror_drying 3 1 ''Completed'' True ''2025-12-27 10:40:00'' ''2025-12-27 10:40:01'')"

text \<open>The staff member marks the first booking paid by card, and later refunded.\<close>

definition demo_paid :: db where
  "demo_paid = committed demo_second (page_update_payment demo_second 1 Card Paid ''2025-12-27 10:45:00'')"

definition demo_refunded :: db where
  "demo_refunded = committed demo_paid (page_update_payment demo_paid 1 Card Refunded ''2025-12-27 12:00:00'')"

text \<open>
  The first database with its stage table emptied, what \<^verbatim>\<open>init_db\<close> makes of it, and
  the booking the customer then makes.
\<close>

definition bare_db :: db where
  "bare_db = demo_db\<lparr>service_stages := []\<rparr>"

definition reseeded_db :: db where
  "reseeded_db = committed bare_db (init_db bare_db ''2025-12-27 09:59:00'')"

definition reseeded_booked :: db where
  "reseeded_booked = committed reseeded_db
     (page_create_booking reseeded_db 2 1 1 [] [] ''2025-12-27 10:00:00'')"

text \<open>The staff member is assigned to the first booking.\<close>

definition demo_assigned :: db where
  "demo_assigned = committed demo_booked (page_save_assignment demo_booked 1 [(3, ''2025-12-27 10:05:00'')])"

text \<open>The admin is assigned to the first booking as well, in one request with the staff member.\<close>

definition demo_both_assigned :: db where
  "demo_both_assigned = committed demo_assigned
     (page_save_assignment demo_assigned 1 [(3, ''2025-12-27 10:06:00''), (1, ''2025-12-27 10:06:01'')])"

section \<open>Basic facts\<close>

subsection \<open>Row identifiers, stage orders and Update Stage\<close>

lemma fold_max_ge_start: "(s::'a::linorder) \<le> fold max xs s"
proof (induction xs arbitrary: s)
  case Nil
  then show ?case by simp
next
  case (Cons y ys)
  have "s \<le> max y s" by simp
  also have "\<dots> \<le> fold max ys (max y s)" by (rule Cons.IH)
  finally show ?case by simp
qed

lemma fold_max_ge: "(x::'a::linorder) \<in> set xs \<Longrightarrow> x \<le> fold max xs s"
proof (induction xs arbitrary: s)
  case Nil
  then show ?case by simp
next
  case (Cons y ys)
  show ?case
  proof (cases "x = y")
    case True
    have "max y s \<le> fold max ys (max y s)" by (rule fold_max_ge_start)
    with True show ?thesis by simp
  next
    case False
    with Cons show ?thesis by simp
  qed
qed

lemma next_rowid_fresh: "next_rowid s ids \<notin> set ids"
proof
  assume "next_rowid s ids \<in> set ids"
  then have "next_rowid s ids \<le> fold max ids 0" by (rule fold_max_ge)
  then show False by (simp add: next_rowid_def)
qed

lemma max_stage_order_eq:
  "service_stages d \<noteq> [] \<Longrightarrow> max_stage_order d = Some (Max (stage_order ` set (service_stages d)))"
  by (cases "service_stages d") (simp_all add: max_stage_order_def Max.set_eq_fold[symmetric])

lemma stage_order_of_SomeD:
  "stage_order_of d sid = Some so \<Longrightarrow> \<exists>s\<in>set (service_stages d). stage_id s = sid \<and> stage_order s = so"
proof -
  assume a: "stage_order_of d sid = Some so"
  then obtain s rest where f: "filter (\<lambda>s. stage_id s = sid) (service_stages d) = s # rest" and so: "stage_order s = so"
    by (cases "filter (\<lambda>s. stage_id s = sid) (service_stages d)") (auto simp: stage_order_of_def)
  have "s \<in> set (filter (\<lambda>s. stage_id s = sid) (service_stages d))" by (simp add: f)
  then show ?thesis using so by auto
qed

lemma close_previous_ids [simp]:
  "map history_id (close_previous hs bid cs t) = map history_id hs"
  by (induction hs) (simp_all add: close_previous_def)

lemma set_stage_ids [simp]: "map booking_id (set_stage bs bid sid st) = map booking_id bs"
  by (induction bs) (simp_all add: set_stage_def)

lemma closed_history_ids [simp]:
  "map history_id (closed_history d bid cur ep t) = map history_id (booking_stage_history d)"
  by (simp add: closed_history_def split: option.splits)

lemma stage_queries_history_update [simp]:
  "get_stage_list (d\<lparr>booking_stage_history := h\<rparr>) = get_stage_list d"
  "stage_order_of (d\<lparr>booking_stage_history := h\<rparr>) = stage_order_of d"
  "max_stage_order (d\<lparr>booking_stage_history := h\<rparr>) = max_stage_order d"
  by (simp_all add: get_stage_list_def stage_order_of_def max_stage_order_def fun_eq_iff)

lemma update_stage_eq:
  "update_stage d bid cur nm ep staff t1 t2 =
     (case stage_map (get_stage_list d) nm of
        None \<Rightarrow> Inl (Raised KeyError)
      | Some sid \<Rightarrow>
          (case stage_order_of d sid of
             None \<Rightarrow> Inl (Raised TypeError)
           | Some so \<Rightarrow>
               insert_history
                 (d\<lparr>booking_stage_history := closed_history d bid cur ep t1,
                    bookings := set_stage (bookings d) bid sid
                       (if Some so = max_stage_order d then Completed else InProgress)\<rparr>)
                 bid sid t2 None staff))"
  by (cases cur; cases ep) (simp_all add: update_stage_def closed_history_def Let_def split: option.splits)

lemma update_stage_InrD:
  assumes "update_stage d bid cur nm ep staff t1 t2 = Inr d'"
  shows "\<exists>sid so. stage_map (get_stage_list d) nm = Some sid \<and> stage_order_of d sid = Some so
           \<and> bid \<in> set (map booking_id (bookings d)) \<and> staff \<in> set (map user_id (users d))
           \<and> bookings d' = set_stage (bookings d) bid sid
                 (if Some so = max_stage_order d then Completed else InProgress)
           \<and> booking_stage_history d' = closed_history d bid cur ep t1 @
                 [\<lparr>history_id = next_rowid (seq_history d) (map history_id (booking_stage_history d)),
                   h_booking_id = bid, h_stage_id = sid, start_time = t2, end_time = None,
                   updated_by_staff_id = staff\<rparr>]
           \<and> payments d' = payments d \<and> booking_staff_assignment d' = booking_staff_assignment d
           \<and> service_stages d' = service_stages d \<and> users d' = users d \<and> packages d' = packages d
           \<and> vehicles d' = vehicles d"
proof -
  from assms obtain sid where sid: "stage_map (get_stage_list d) nm = Some sid"
    by (auto simp: update_stage_eq split: option.splits)
  with assms obtain so where so: "stage_order_of d sid = Some so"
    by (auto simp: update_stage_eq split: option.splits)
  let ?st = "if Some so = max_stage_order d then Completed else InProgress"
  let ?d2 = "d\<lparr>booking_stage_history := closed_history d bid cur ep t1,
                bookings := set_stage (bookings d) bid sid ?st\<rparr>"
  from assms sid so have ins: "insert_history ?d2 bid sid t2 None staff = Inr d'"
    by (simp add: update_stage_eq)
  then have ok: "bid \<in> set (map booking_id (bookings d))" "staff \<in> set (map user_id (users d))"
    by (auto simp: insert_history_def split: if_splits)
  from ins have "d' = ?d2\<lparr>booking_stage_history := booking_stage_history ?d2 @
          [\<lparr>history_id = next_rowid (seq_history d) (map history_id (booking_stage_history d)),
            h_booking_id = bid, h_stage_id = sid, start_time = t2, end_time = None,
            updated_by_staff_id = staff\<rparr>],
        seq_history := next_rowid (seq_history d) (map history_id (booking_stage_history d))\<rparr>"
    by (simp add: insert_history_def Let_def split: if_splits)
  then show ?thesis using sid so ok by simp
qed


lemma page_update_stage_InrD:
  assumes "page_update_stage d staff bid nm ep t1 t2 = Inr d'"
  shows "bid \<in> set (active_booking_ids d) \<and> nm \<in> set (map snd (get_stage_list d))
         \<and> (\<exists>cur st. current_of d bid = Some (cur, st) \<and> update_stage d bid cur nm ep staff t1 t2 = Inr d')"
  using assms
  by (simp add: page_update_stage_def Let_def split: if_splits option.splits prod.splits)

lemma set_stage_simps [simp]:
  "set_stage [] bid sid st = []"
  "set_stage (a # bs) bid sid st =
     (if booking_id a = bid then a\<lparr>current_stage_id := Some sid, status := st\<rparr> else a) # set_stage bs bid sid st"
  by (simp_all add: set_stage_def)

lemma set_stage_all:
  "list_all (\<lambda>b. booking_id b = bid \<longrightarrow> status b = st \<and> current_stage_id b = Some sid) (set_stage bs bid sid st)"
  by (induction bs) simp_all

lemma set_stage_member:
  "b \<in> set (set_stage bs bid sid st) \<Longrightarrow> booking_id b = bid \<Longrightarrow> status b = st \<and> current_stage_id b = Some sid"
  using set_stage_all[of bid st sid bs] unfolding list_all_iff by blast

lemma set_stage_exists:
  "bid \<in> set (map booking_id bs) \<Longrightarrow> \<exists>b\<in>set (set_stage bs bid sid st). booking_id b = bid"
  by (induction bs) auto


subsection \<open>Create Booking\<close>


lemma create_booking_InrD:
  assumes "create_booking d uid vid pid scheduled nts now = Inr d'"
  shows "\<exists>fs pr. first_stage d = Some fs \<and> package_price d pid = Some pr
     \<and> next_rowid (seq_bookings d) (map booking_id (bookings d)) \<notin> set (map p_booking_id (payments d))
     \<and> bookings d' = bookings d @
          [\<lparr>booking_id = next_rowid (seq_bookings d) (map booking_id (bookings d)), customer_id = uid,
            b_vehicle_id = vid, b_package_id = pid, booking_datetime = now,
            scheduled_datetime = or_none (strip scheduled), status = Booked,
            current_stage_id = Some fs, b_notes = or_none (strip nts)\<rparr>]
     \<and> payments d' = payments d @
          [\<lparr>payment_id = next_rowid (seq_payments d) (map payment_id (payments d)),
            p_booking_id = next_rowid (seq_bookings d) (map booking_id (bookings d)), amount = pr,
            p_method = Cash, payment_status = Unpaid, paid_at = None\<rparr>]
     \<and> booking_stage_history d' = booking_stage_history d
     \<and> booking_staff_assignment d' = booking_staff_assignment d
     \<and> service_stages d' = service_stages d \<and> packages d' = packages d
     \<and> users d' = users d \<and> vehicles d' = vehicles d"
proof -
  let ?bid = "next_rowid (seq_bookings d) (map booking_id (bookings d))"
  from assms obtain fs where fs: "first_stage d = Some fs"
    by (auto simp: create_booking_def split: option.splits)
  let ?row = "\<lparr>booking_id = ?bid, customer_id = uid,
            b_vehicle_id = vid, b_package_id = pid, booking_datetime = now,
            scheduled_datetime = or_none (strip scheduled), status = Booked,
            current_stage_id = Some fs, b_notes = or_none (strip nts)\<rparr>"
  let ?d1 = "d\<lparr>bookings := bookings d @ [?row], seq_bookings := ?bid\<rparr>"
  from assms fs have ib: "insert_booking d uid vid pid now (or_none (strip scheduled)) Booked (Some fs)
      (or_none (strip nts)) = Inr (?d1, ?bid)"
    by (auto simp: create_booking_def insert_booking_def Let_def split: sum.splits if_splits)
  have pp: "package_price ?d1 pid = package_price d pid" by (simp add: package_price_def)
  from assms fs ib obtain pr where pr: "package_price d pid = Some pr"
    by (auto simp: create_booking_def pp split: option.splits)
  from assms fs ib pr have ip: "insert_payment ?d1 ?bid pr Cash Unpaid None = Inr d'"
    by (simp add: create_booking_def pp)
  then have fresh: "?bid \<notin> set (map p_booking_id (payments d))"
    by (auto simp: insert_payment_def split: if_splits)
  from ip have "d' = ?d1\<lparr>payments := payments d @
          [\<lparr>payment_id = next_rowid (seq_payments d) (map payment_id (payments d)),
            p_booking_id = ?bid, amount = pr,
            p_method = Cash, payment_status = Unpaid, paid_at = None\<rparr>],
       seq_payments := next_rowid (seq_payments d) (map payment_id (payments d))\<rparr>"
    by (simp add: insert_payment_def Let_def split: if_splits)
  then show ?thesis using fs pr fresh by simp
qed

lemma page_create_booking_InrD:
  assumes "page_create_booking d uid vid pid scheduled nts now = Inr d'"
  shows "vid \<in> set (map vehicle_id (customer_vehicles d uid))
       \<and> pid \<in> set (map package_id (get_active_packages d))
       \<and> create_booking d uid vid pid scheduled nts now = Inr d'"
  using assms by (simp add: page_create_booking_def Let_def split: if_splits)

lemma filter_no_key:
  "k \<notin> set (map f xs) \<Longrightarrow> filter (\<lambda>x. f x = k) xs = []"
  by (induction xs) auto


subsection \<open>The history ledger\<close>

lemma close_previous_simps [simp]:
  "close_previous [] bid cs t = []"
  "close_previous (h # hs) bid cs t =
     (if h_booking_id h = bid \<and> h_stage_id h = cs \<and> end_time h = None
      then h\<lparr>end_time := Some t\<rparr> else h) # close_previous hs bid cs t"
  by (simp_all add: close_previous_def)

lemma close_previous_leaves_none_open:
  "list_all (\<lambda>h. h_stage_id h = cs) (filter (\<lambda>h. h_booking_id h = bid \<and> end_time h = None) hs)
   \<Longrightarrow> filter (\<lambda>h. h_booking_id h = bid \<and> end_time h = None) (close_previous hs bid cs t) = []"
  by (induction hs) (auto split: if_splits)

lemma current_of_set_stage:
  "bid \<in> set (map booking_id bs) \<Longrightarrow>
   fetchone (filter (\<lambda>b. booking_id b = bid) (set_stage bs bid sid st)) \<noteq> None
   \<and> map_option (\<lambda>b. (current_stage_id b, status b))
        (fetchone (filter (\<lambda>b. booking_id b = bid) (set_stage bs bid sid st))) = Some (Some sid, st)"
  by (induction bs) auto

lemma list_all_False_Nil: "list_all (\<lambda>h. False) xs \<Longrightarrow> xs = []"
  by (cases xs) simp_all


lemma close_previous_open_for:
  "close_previous hs bid cs t = map (\<lambda>h. if open_for bid cs h then h\<lparr>end_time := Some t\<rparr> else h) hs"
  by (simp add: close_previous_def open_for_def)

lemma close_previous_length [simp]: "length (close_previous hs bid cs t) = length hs"
  by (simp add: close_previous_def)

lemma close_previous_none_open:
  "filter (open_for bid cs) hs = [] \<Longrightarrow> close_previous hs bid cs t = hs"
  unfolding close_previous_open_for
  by (induction hs) (simp_all split: if_splits)

lemma close_previous_one_open:
  assumes "filter (open_for bid cs) hs = [x]"
  shows "close_previous hs bid cs t = spec_close_most_recent hs bid cs t"
proof -
  have mr: "spec_most_recent_open hs bid cs = Some (history_id x)"
    by (simp add: spec_most_recent_open_def assms)
  have same: "\<And>h. h \<in> set hs \<Longrightarrow> open_for bid cs h \<Longrightarrow> history_id h = history_id x"
  proof -
    fix h assume "h \<in> set hs" and "open_for bid cs h"
    then have "h \<in> set (filter (open_for bid cs) hs)" by simp
    then have "h \<in> set [x]" by (simp only: assms)
    then show "history_id h = history_id x" by simp
  qed
  have "map (\<lambda>h. if open_for bid cs h then h\<lparr>end_time := Some t\<rparr> else h) hs
      = map (\<lambda>h. if open_for bid cs h \<and> history_id h = history_id x then h\<lparr>end_time := Some t\<rparr> else h) hs"
  proof (rule map_cong[OF refl])
    fix h assume h: "h \<in> set hs"
    show "(if open_for bid cs h then h\<lparr>end_time := Some t\<rparr> else h)
        = (if open_for bid cs h \<and> history_id h = history_id x then h\<lparr>end_time := Some t\<rparr> else h)"
    proof (cases "open_for bid cs h")
      case True
      with same[OF h] show ?thesis by simp
    next
      case False
      then show ?thesis by simp
    qed
  qed
  then show ?thesis
    by (simp add: close_previous_open_for spec_close_most_recent_def mr)
qed

lemma close_previous_at_most_one_open:
  assumes "length (filter (open_for bid cs) hs) \<le> 1"
  shows "close_previous hs bid cs t = spec_close_most_recent hs bid cs t"
proof (cases "filter (open_for bid cs) hs")
  case Nil
  then have "spec_most_recent_open hs bid cs = None" by (simp add: spec_most_recent_open_def)
  with Nil show ?thesis by (simp add: close_previous_none_open spec_close_most_recent_def)
next
  case (Cons x xs)
  with assms have "xs = []" by simp
  with Cons show ?thesis by (simp add: close_previous_one_open)
qed

subsection \<open>What the pages offer\<close>

lemma finished_not_active:
  "list_all (\<lambda>b. booking_id b = bid \<longrightarrow> status b = Completed \<or> status b = Cancelled) bs
   \<Longrightarrow> bid \<notin> set (map booking_id (filter (\<lambda>b. status b = Booked \<or> status b = InProgress) bs))"
  by (induction bs) auto

lemma active_booking_ids_set:
  "set (active_booking_ids d)
     = set (map booking_id (filter (\<lambda>b. status b = Booked \<or> status b = InProgress) (bookings d)))"
  by (simp add: active_booking_ids_def)

lemma inactive_not_listed:
  "list_all (\<lambda>p. package_id p = pid \<longrightarrow> \<not> is_active p) ps
     \<Longrightarrow> pid \<notin> set (map package_id (filter is_active ps))"
  by (induction ps) auto

lemma page_create_booking_not_offered:
  "vid \<notin> set (map vehicle_id (customer_vehicles d uid)) \<or> pid \<notin> set (map package_id (get_active_packages d))
   \<Longrightarrow> page_create_booking d uid vid pid scheduled nts now = Inl NotOffered"
  by (simp add: page_create_booking_def Let_def)

subsection \<open>Update Payment\<close>

lemma update_payment_rows:
  "payments (update_payment d bsel m st now) = map (set_payment bsel m st now) (payments d)"
  by (simp add: update_payment_def set_payment_def[abs_def])

lemma update_payment_frame:
  "update_payment d bsel m st now = d\<lparr>payments := payments (update_payment d bsel m st now)\<rparr>"
  by (simp add: update_payment_def)

lemma set_payment_all:
  "list_all (\<lambda>p. p_booking_id p = bsel \<longrightarrow>
       p_method p = m \<and> payment_status p = st \<and> paid_at p = paid_time st now)
     (map (set_payment bsel m st now) ps)"
  by (induction ps) (simp_all add: set_payment_def)

lemma set_payment_kept [simp]:
  "payment_id (set_payment bsel m st now p) = payment_id p"
  "p_booking_id (set_payment bsel m st now p) = p_booking_id p"
  "amount (set_payment bsel m st now p) = amount p"
  by (simp_all add: set_payment_def)

lemma set_payment_keys:
  "map (\<lambda>p. (payment_id p, p_booking_id p, amount p)) (map (set_payment bsel m st now) ps)
     = map (\<lambda>p. (payment_id p, p_booking_id p, amount p)) ps"
  by simp

lemma set_payment_booking_ids:
  "map p_booking_id (map (set_payment bsel m st now) ps) = map p_booking_id ps"
  by simp

lemma set_payment_three_fields:
  "list_all2 (\<lambda>p p'. (p_booking_id p \<noteq> bsel \<longrightarrow> p' = p)
       \<and> p' = p\<lparr>p_method := p_method p', payment_status := payment_status p', paid_at := paid_at p'\<rparr>)
     ps (map (set_payment bsel m st now) ps)"
  by (induction ps) (simp_all add: set_payment_def)

lemma payment_of_SomeD: "payment_of d bsel = Some pay \<Longrightarrow> bsel \<in> set (map p_booking_id (payments d))"
proof -
  assume "payment_of d bsel = Some pay"
  then obtain rest where "filter (\<lambda>p. p_booking_id p = bsel) (payments d) = pay # rest"
    by (cases "filter (\<lambda>p. p_booking_id p = bsel) (payments d)") (auto simp: payment_of_def)
  then have "filter (\<lambda>p. p_booking_id p = bsel) (payments d) \<noteq> []" by simp
  then show ?thesis by (metis filter_no_key)
qed

lemma page_update_payment_InrD:
  assumes "page_update_payment d bsel m st now = Inr d'"
  shows "assignment_form d bsel \<and> bsel \<in> set (map p_booking_id (payments d))
       \<and> d' = update_payment d bsel m st now"
  using assms payment_of_SomeD[of d bsel]
  by (auto simp: page_update_payment_def split: if_splits option.splits)

lemma member_by_key: "k \<in> set (map f xs) \<Longrightarrow> \<exists>x\<in>set xs. f x = k"
  by auto

lemma committed_update_payment:
  "committed d (page_update_payment d bsel m st now) = d
   \<or> committed d (page_update_payment d bsel m st now) = update_payment d bsel m st now"
  by (simp add: committed_def page_update_payment_def split: option.splits)

lemma committed_update_payment_keys:
  "map (\<lambda>p. (payment_id p, p_booking_id p, amount p))
      (payments (committed d (page_update_payment d bsel m st now)))
    = map (\<lambda>p. (payment_id p, p_booking_id p, amount p)) (payments d)"
  using committed_update_payment[of d bsel m st now]
  by (auto simp: update_payment_rows)

lemma committed_update_payment_frame:
  "committed d (page_update_payment d bsel m st now)
    = d\<lparr>payments := payments (committed d (page_update_payment d bsel m st now))\<rparr>"
  using committed_update_payment[of d bsel m st now] update_payment_frame[of d bsel m st now]
  by auto

lemma update_payments_keys:
  "map (\<lambda>p. (payment_id p, p_booking_id p, amount p)) (payments (update_payments d calls))
    = map (\<lambda>p. (payment_id p, p_booking_id p, amount p)) (payments d)"
  by (induction d calls rule: update_payments.induct) (simp_all add: committed_update_payment_keys)

lemma update_payments_frame:
  "update_payments d calls = d\<lparr>payments := payments (update_payments d calls)\<rparr>"
proof (induction d calls rule: update_payments.induct)
  case (1 d)
  then show ?case by simp
next
  case (2 d bsel new_method new_status now rest)
  let ?d1 = "committed d (page_update_payment d bsel new_method new_status now)"
  have "update_payments ?d1 rest = ?d1\<lparr>payments := payments (update_payments ?d1 rest)\<rparr>" by (rule 2)
  also have "\<dots> = d\<lparr>payments := payments (update_payments ?d1 rest)\<rparr>"
    by (subst committed_update_payment_frame) simp
  finally show ?case by simp
qed

subsection \<open>Save Assignment\<close>

lemma insert_assignment_cases:
  "insert_assignment d bid sid t =
     (if (bid, sid) \<in> set (assignment_keys d) \<or> bid \<notin> set (map booking_id (bookings d))
         \<or> sid \<notin> set (map user_id (users d))
      then Inl (Raised IntegrityError)
      else Inr (d\<lparr>booking_staff_assignment := booking_staff_assignment d @
                    [\<lparr>a_booking_id = bid, staff_id = sid, assigned_at = t\<rparr>]\<rparr>))"
  by (simp add: insert_assignment_def assignment_keys_def)

lemma save_assignment_one:
  "save_assignment d bid [(sid, t)] =
     (if (bid, sid) \<in> set (assignment_keys d) \<or> bid \<notin> set (map booking_id (bookings d))
         \<or> sid \<notin> set (map user_id (users d))
      then Inr d
      else Inr (d\<lparr>booking_staff_assignment := booking_staff_assignment d @
                    [\<lparr>a_booking_id = bid, staff_id = sid, assigned_at = t\<rparr>]\<rparr>))"
  by (simp add: insert_assignment_cases)

lemma save_assignment_commits: "\<exists>d'. save_assignment d bsel chosen = Inr d'"
proof (induction chosen arbitrary: d)
  case Nil
  then show ?case by simp
next
  case (Cons c chosen)
  obtain sid t where c: "c = (sid, t)" by (cases c)
  show ?case
  proof (cases "insert_assignment d bsel sid t")
    case (Inl e)
    then have "e = Raised IntegrityError" by (simp add: insert_assignment_cases split: if_splits)
    with Inl c Cons.IH[of d] show ?thesis by simp
  next
    case (Inr d1)
    with c Cons.IH[of d1] show ?thesis by simp
  qed
qed

lemma all_booking_ids_set [simp]: "set (all_booking_ids d) = set (map booking_id (bookings d))"
  by (simp add: all_booking_ids_def)

lemma staff_rows_users: "sid \<in> set (map user_id (staff_rows d)) \<Longrightarrow> sid \<in> set (map user_id (users d))"
  by (auto simp: staff_rows_def)

lemma form_unchanged_by_assignments [simp]:
  "assignment_form (d\<lparr>booking_staff_assignment := as\<rparr>) bsel = assignment_form d bsel"
  "staff_rows (d\<lparr>booking_staff_assignment := as\<rparr>) = staff_rows d"
  by (simp_all add: assignment_form_def staff_rows_def all_booking_ids_def)

lemma one_row_per_key:
  "distinct (map (\<lambda>a. (a_booking_id a, staff_id a)) as)
   \<Longrightarrow> (bid, sid) \<in> set (map (\<lambda>a. (a_booking_id a, staff_id a)) as)
   \<Longrightarrow> length (filter (\<lambda>a. a_booking_id a = bid \<and> staff_id a = sid) as) = 1"
proof (induction as)
  case Nil
  then show ?case by simp
next
  case (Cons a as)
  show ?case
  proof (cases "a_booking_id a = bid \<and> staff_id a = sid")
    case True
    with Cons.prems have "(bid, sid) \<notin> set (map (\<lambda>a. (a_booking_id a, staff_id a)) as)" by auto
    then have "filter (\<lambda>a. (a_booking_id a, staff_id a) = (bid, sid)) as = []" by (rule filter_no_key)
    then have "filter (\<lambda>a. a_booking_id a = bid \<and> staff_id a = sid) as = []" by simp
    with True show ?thesis by simp
  next
    case False
    with Cons show ?thesis by auto
  qed
qed

lemma no_row_without_key:
  "(bid, sid) \<notin> set (map (\<lambda>a. (a_booking_id a, staff_id a)) as)
   \<Longrightarrow> filter (\<lambda>a. a_booking_id a = bid \<and> staff_id a = sid) as = []"
proof -
  assume "(bid, sid) \<notin> set (map (\<lambda>a. (a_booking_id a, staff_id a)) as)"
  then have "filter (\<lambda>a. (a_booking_id a, staff_id a) = (bid, sid)) as = []" by (rule filter_no_key)
  then show ?thesis by simp
qed

subsection \<open>When the handlers commit\<close>

text \<open>
  A new booking has no open history entry, so its open entries belong to the stage it
  stands at; and Update Stage commits for every booking and stage name its select
  boxes offer, when the staff member is a user of the table and the history table is
  not full.
\<close>

lemma new_booking_open_at_current:
  assumes run: "page_create_booking d uid vid pid scheduled nts now = Inr d'"
      and fk: "history_refs_bookings d"
  shows "open_at_current d' (next_rowid (seq_bookings d) (map booking_id (bookings d)))"
proof -
  let ?bid = "next_rowid (seq_bookings d) (map booking_id (bookings d))"
  from page_create_booking_InrD[OF run] have body: "create_booking d uid vid pid scheduled nts now = Inr d'"
    by simp
  from create_booking_InrD[OF body] obtain fs where
      bs: "bookings d' = bookings d @
          [\<lparr>booking_id = ?bid, customer_id = uid,
            b_vehicle_id = vid, b_package_id = pid, booking_datetime = now,
            scheduled_datetime = or_none (strip scheduled), status = Booked,
            current_stage_id = Some fs, b_notes = or_none (strip nts)\<rparr>]"
      and hs: "booking_stage_history d' = booking_stage_history d"
    by blast
  have new: "?bid \<notin> set (map booking_id (bookings d))" by (rule next_rowid_fresh)
  have cur: "current_of d' ?bid = Some (Some fs, Booked)"
    by (simp add: current_of_def bs filter_no_key[OF new])
  have "?bid \<notin> set (map h_booking_id (booking_stage_history d))"
    using fk new unfolding history_refs_bookings_def list_all_iff by auto
  then have "filter (\<lambda>h. h_booking_id h = ?bid) (booking_stage_history d) = []"
    by (rule filter_no_key)
  then have "filter (\<lambda>h. h_booking_id h = ?bid \<and> end_time h = None) (booking_stage_history d) = []"
    by (simp add: filter_empty_conv)
  then have "open_entries d' ?bid = []" by (simp add: open_entries_def hs)
  with cur show ?thesis by (simp add: open_at_current_def)
qed

lemma stage_map_defined:
  "nm \<in> set (map snd stages) \<Longrightarrow> \<exists>sid. stage_map stages nm = Some sid \<and> sid \<in> set (map fst stages)"
proof -
  assume "nm \<in> set (map snd stages)"
  then have "nm \<in> fst ` set (rev (map (\<lambda>(sid, name). (name, sid)) stages))" by force
  then obtain sid where m: "map_of (rev (map (\<lambda>(sid, name). (name, sid)) stages)) nm = Some sid"
    by (metis domD dom_map_of_conv_image_fst)
  from map_of_SomeD[OF m] have "sid \<in> set (map fst stages)" by force
  with m show ?thesis by (simp add: stage_map_def)
qed

lemma filter_has_key: "k \<in> set (map f xs) \<Longrightarrow> filter (\<lambda>x. f x = k) xs \<noteq> []"
  by (induction xs) auto

lemma stage_order_of_defined:
  "sid \<in> set (map stage_id (service_stages d)) \<Longrightarrow> \<exists>so. stage_order_of d sid = Some so"
proof -
  assume "sid \<in> set (map stage_id (service_stages d))"
  then have "filter (\<lambda>s. stage_id s = sid) (service_stages d) \<noteq> []" by (rule filter_has_key)
  then show ?thesis
    by (cases "filter (\<lambda>s. stage_id s = sid) (service_stages d)") (simp_all add: stage_order_of_def)
qed

lemma current_of_defined:
  "bid \<in> set (map booking_id (bookings d)) \<Longrightarrow> \<exists>c. current_of d bid = Some c"
proof -
  assume "bid \<in> set (map booking_id (bookings d))"
  then have "filter (\<lambda>b. booking_id b = bid) (bookings d) \<noteq> []" by (rule filter_has_key)
  then show ?thesis
    by (cases "filter (\<lambda>b. booking_id b = bid) (bookings d)") (simp_all add: current_of_def)
qed

lemma key_of_filtered: "k \<in> set (map f (filter P xs)) \<Longrightarrow> k \<in> set (map f xs)"
  by (induction xs) (auto split: if_splits)

lemma active_is_booking: "bid \<in> set (active_booking_ids d) \<Longrightarrow> bid \<in> set (map booking_id (bookings d))"
  unfolding active_booking_ids_set by (rule key_of_filtered)

lemma page_update_stage_commits:
  assumes act: "bid \<in> set (active_booking_ids d)"
      and nm: "nm \<in> set (map snd (get_stage_list d))"
      and staff: "staff \<in> set (map user_id (users d))"
      and room: "\<not> rowid_full (seq_history d) (map history_id (booking_stage_history d))"
  shows "\<exists>d'. page_update_stage d staff bid nm ep now1 now2 = Inr d'"
proof -
  from act have b: "bid \<in> set (map booking_id (bookings d))" by (rule active_is_booking)
  from current_of_defined[OF b] obtain c where c: "current_of d bid = Some c" by blast
  obtain cur st where "c = (cur, st)" by (cases c)
  with c have cur: "current_of d bid = Some (cur, st)" by simp
  from stage_map_defined[OF nm] obtain sid where sid: "stage_map (get_stage_list d) nm = Some sid"
    and mem: "sid \<in> set (map fst (get_stage_list d))" by blast
  have "map fst (get_stage_list d) = map stage_id (sort_key stage_order (service_stages d))"
    by (simp add: get_stage_list_def comp_def)
  with mem have s: "sid \<in> set (map stage_id (service_stages d))" by simp
  from stage_order_of_defined[OF s] obtain so where so: "stage_order_of d sid = Some so" by blast
  have "\<exists>d'. update_stage d bid cur nm ep staff now1 now2 = Inr d'"
    using sid so b s staff room by (simp add: update_stage_eq insert_history_def Let_def)
  moreover from act have "active_booking_ids d \<noteq> []" by (cases "active_booking_ids d") simp_all
  ultimately show ?thesis using act nm cur
    by (simp add: page_update_stage_def Let_def)
qed

subsection \<open>The stage chosen by name\<close>

lemma stage_map_SomeD:
  assumes "stage_map (get_stage_list d) nm = Some sid"
  shows "\<exists>s\<in>set (service_stages d). stage_name s = nm \<and> stage_id s = sid"
proof -
  from assms have "(nm, sid) \<in> set (rev (map (\<lambda>(sid, name). (name, sid)) (get_stage_list d)))"
    unfolding stage_map_def by (rule map_of_SomeD)
  then have "(nm, sid) \<in> set (map (\<lambda>s. (stage_name s, stage_id s)) (sort_key stage_order (service_stages d)))"
    by (simp add: get_stage_list_def comp_def)
  then have "(nm, sid) \<in> set (map (\<lambda>s. (stage_name s, stage_id s)) (service_stages d))"
    by simp
  then obtain s where "s \<in> set (service_stages d)" and "(stage_name s, stage_id s) = (nm, sid)"
    using member_by_key[of "(nm, sid)" "\<lambda>s. (stage_name s, stage_id s)" "service_stages d"] by blast
  then show ?thesis by auto
qed

lemma same_row_by_key:
  "distinct (map f xs) \<Longrightarrow> x \<in> set xs \<Longrightarrow> y \<in> set xs \<Longrightarrow> f x = f y \<Longrightarrow> x = y"
  by (meson distinct_map inj_onD)

subsection \<open>Vehicles of the customer\<close>

lemma not_own_vehicle_not_listed:
  "list_all (\<lambda>v. vehicle_id v = vid \<longrightarrow> v_customer_id v \<noteq> uid) vs
     \<Longrightarrow> vid \<notin> set (map vehicle_id (filter (\<lambda>v. v_customer_id v = uid) vs))"
  by (induction vs) auto

lemma customer_vehicles_ids:
  "set (map vehicle_id (customer_vehicles d uid))
     = set (map vehicle_id (filter (\<lambda>v. v_customer_id v = uid) (vehicles d)))"
  by (simp add: customer_vehicles_def)

lemma missing_key_no_row: "k \<notin> set (map f xs) \<Longrightarrow> list_all (\<lambda>x. f x = k \<longrightarrow> P x) xs"
  by (induction xs) auto

subsection \<open>The rows Save Assignment adds\<close>

lemma new_rows_Nil [simp]: "new_rows d bsel [] = []"
  by (simp add: new_rows_def)





subsection \<open>Seeding\<close>

text \<open>
  When \<^verbatim>\<open>init_db\<close> commits, the database is seeded; and on a seeded database it
  commits without a change. So a page reads a seeded database, whatever the database
  was before.
\<close>

lemma executemany_establishes:
  assumes step: "\<And>d x d'. ins d x = Inr d' \<Longrightarrow> P d'"
      and ne: "xs \<noteq> []"
      and run: "executemany ins d xs = Inr d'"
  shows "P d'"
  using ne run
proof (induction xs arbitrary: d)
  case Nil
  then show ?case by simp
next
  case (Cons x xs)
  from Cons.prems(2) obtain d1 where d1: "ins d x = Inr d1" and rest: "executemany ins d1 xs = Inr d'"
    by (cases "ins d x") simp_all
  show ?case
  proof (cases "xs = []")
    case True
    with rest have "d' = d1" by simp
    with step[OF d1] show ?thesis by simp
  next
    case False
    from Cons.IH[OF False rest] show ?thesis .
  qed
qed

lemma executemany_keeps:
  assumes step: "\<And>d x d'. ins d x = Inr d' \<Longrightarrow> Q d \<Longrightarrow> Q d'"
      and start: "Q d"
      and run: "executemany ins d xs = Inr d'"
  shows "Q d'"
  using start run
proof (induction xs arbitrary: d)
  case Nil
  then show ?case by simp
next
  case (Cons x xs)
  from Cons.prems(2) obtain d1 where d1: "ins d x = Inr d1" and rest: "executemany ins d1 xs = Inr d'"
    by (cases "ins d x") simp_all
  from step[OF d1 Cons.prems(1)] have "Q d1" .
  from Cons.IH[OF this rest] show ?case .
qed

lemma insert_stage_InrD:
  "insert_stage d name ord = Inr d' \<Longrightarrow>
     service_stages d' \<noteq> [] \<and> packages d' = packages d \<and> users d' = users d"
  by (auto simp: insert_stage_def Let_def split: if_splits)

lemma insert_package_InrD:
  "insert_package d name pr dur act = Inr d' \<Longrightarrow>
     packages d' \<noteq> [] \<and> service_stages d' = service_stages d \<and> users d' = users d"
  by (auto simp: insert_package_def Let_def split: if_splits)

lemma insert_user_InrD:
  "insert_user d name ph em pw rl now = Inr d' \<Longrightarrow>
     users d' = users d @ [\<lparr>user_id = next_rowid (seq_users d) (map user_id (users d)), full_name = name,
                            phone = ph, email = em, password_hash = pw, role = rl, created_at = now\<rparr>]
     \<and> service_stages d' = service_stages d \<and> packages d' = packages d"
  by (auto simp: insert_user_def Let_def split: if_splits)

lemma init_db_seeded:
  assumes run: "init_db d now = Inr d0"
  shows "seeded d0"
proof -
  let ?stages = "[(''Washing'', 1), (''Drying'', 2), (''Polishing'', 3), (''Completed'', 4::int)]"
  let ?pkgs = "[(''Basic Wash'', 500, 20, True), (''Standard Wash'', 800, 35, True),
                (''Premium Wash'', 1200::real, 50::int, True)]"
  let ?ins_stage = "\<lambda>d (name, ord). insert_stage d name ord"
  let ?ins_pkg = "\<lambda>d (name, pr, dur, act). insert_package d name pr dur act"
  define r1 where "r1 = (if service_stages d = [] then executemany ?ins_stage d ?stages else Inr d)"
  from run obtain d1 where d1: "r1 = Inr d1"
    unfolding init_db_def r1_def by (cases r1) (simp_all add: r1_def)
  define r2 where "r2 = (if packages d1 = [] then executemany ?ins_pkg d1 ?pkgs else Inr d1)"
  from run d1 obtain d2 where d2: "r2 = Inr d2"
    unfolding init_db_def r1_def[symmetric] r2_def by (cases r2) (simp_all add: r2_def)
  from run d1 d2 have last:
    "(if filter (\<lambda>u. role u = Admin) (users d2) = []
      then insert_user d2 ''Admin'' ''0300-0000000'' (Some ''admin@carwash.local'')
             admin_password_hash Admin now
      else Inr d2) = Inr d0"
    unfolding init_db_def r1_def[symmetric] by (simp add: r2_def[symmetric])
  have s1: "service_stages d1 \<noteq> []"
  proof (cases "service_stages d = []")
    case True
    with d1 have "executemany ?ins_stage d ?stages = Inr d1" by (simp add: r1_def)
    then show ?thesis
      by (rule executemany_establishes[rotated 2]) (auto dest: insert_stage_InrD)
  next
    case False
    with d1 show ?thesis by (simp add: r1_def)
  qed
  have s2: "service_stages d2 \<noteq> [] \<and> packages d2 \<noteq> []"
  proof (cases "packages d1 = []")
    case True
    with d2 have e: "executemany ?ins_pkg d1 ?pkgs = Inr d2" by (simp add: r2_def)
    have "packages d2 \<noteq> []"
      using e by (rule executemany_establishes[rotated 2]) (auto dest: insert_package_InrD)
    moreover have "service_stages d2 \<noteq> []"
      using s1 e by (rule executemany_keeps[rotated 1]) (auto dest: insert_package_InrD)
    ultimately show ?thesis by simp
  next
    case False
    with d2 s1 show ?thesis by (simp add: r2_def)
  qed
  show ?thesis
  proof (cases "filter (\<lambda>u. role u = Admin) (users d2) = []")
    case True
    with last have "insert_user d2 ''Admin'' ''0300-0000000'' (Some ''admin@carwash.local'')
             admin_password_hash Admin now = Inr d0" by simp
    from insert_user_InrD[OF this] s2 show ?thesis by (simp add: seeded_def)
  next
    case False
    with last s2 show ?thesis by (simp add: seeded_def)
  qed
qed

lemma seeded_init_db: "seeded d \<Longrightarrow> init_db d now = Inr d"
  by (simp add: seeded_def init_db_def)

subsection \<open>Evaluating the examples\<close>

lemmas demo_defs = demo_db_def demo_users_def demo_stages_def demo_packages_def

lemmas create_defs = page_create_booking_def create_booking_def customer_vehicles_def
  get_active_packages_def first_stage_def insert_booking_def insert_payment_def package_price_def
  next_rowid_def rowid_full_def strip_def or_none_def isspace_def

lemmas stage_defs = page_update_stage_def update_stage_def active_booking_ids_def get_stage_list_def
  stage_map_def current_of_def stage_order_of_def max_stage_order_def insert_history_def
  close_previous_def next_rowid_def rowid_full_def

lemma demo_booked_run:
  "page_create_booking demo_db 2 1 1 [] ''wax'' ''2025-12-27 10:00:00'' = Inr demo_booked"
  by (simp add: demo_booked_def demo_defs create_defs committed_def)

lemma demo_booked_eq:
  "demo_booked =
     demo_db\<lparr>bookings := [\<lparr>booking_id = 1, customer_id = 2, b_vehicle_id = 1, b_package_id = 1,
                 booking_datetime = ''2025-12-27 10:00:00'', scheduled_datetime = None,
                 status = Booked, current_stage_id = Some 1, b_notes = Some ''wax''\<rparr>],
             payments := [\<lparr>payment_id = 1, p_booking_id = 1, amount = 500, p_method = Cash,
                 payment_status = Unpaid, paid_at = None\<rparr>],
             seq_bookings := 1, seq_payments := 1\<rparr>"
  by (simp add: demo_booked_def demo_defs create_defs committed_def)

lemma demo_drying_run:
  "page_update_stage demo_booked 3 1 ''Drying'' True ''2025-12-27 10:20:00'' ''2025-12-27 10:20:01''
     = Inr demo_drying"
  by (simp add: demo_drying_def demo_booked_eq demo_defs stage_defs committed_def)

lemma demo_drying_eq:
  "demo_drying =
     demo_booked\<lparr>bookings := [\<lparr>booking_id = 1, customer_id = 2, b_vehicle_id = 1, b_package_id = 1,
                 booking_datetime = ''2025-12-27 10:00:00'', scheduled_datetime = None,
                 status = InProgress, current_stage_id = Some 2, b_notes = Some ''wax''\<rparr>],
             booking_stage_history := [\<lparr>history_id = 1, h_booking_id = 1, h_stage_id = 2,
                 start_time = ''2025-12-27 10:20:01'', end_time = None, updated_by_staff_id = 3\<rparr>],
             seq_history := 1\<rparr>"
  by (simp add: demo_drying_def demo_booked_eq demo_defs stage_defs committed_def)

lemma demo_done_run:
  "page_update_stage demo_drying 3 1 ''Completed'' True ''2025-12-27 10:40:00'' ''2025-12-27 10:40:01''
     = Inr demo_done"
  by (simp add: demo_done_def demo_drying_eq demo_booked_eq demo_defs stage_defs committed_def)

lemma demo_done_eq:
  "demo_done =
     demo_drying\<lparr>bookings := [\<lparr>booking_id = 1, customer_id = 2, b_vehicle_id = 1, b_package_id = 1,
                 booking_datetime = ''2025-12-27 10:00:00'', scheduled_datetime = None,
                 status = Completed, current_stage_id = Some 4, b_notes = Some ''wax''\<rparr>],
             booking_stage_history :=
               [\<lparr>history_id = 1, h_booking_id = 1, h_stage_id = 2,
                 start_time = ''2025-12-27 10:20:01'', end_time = Some ''2025-12-27 10:40:00'',
                 updated_by_staff_id = 3\<rparr>,
                \<lparr>history_id = 2, h_booking_id = 1, h_stage_id = 4,
                 start_time = ''2025-12-27 10:40:01'', end_time = None, updated_by_staff_id = 3\<rparr>],
             seq_history := 2\<rparr>"
  by (simp add: demo_done_def demo_drying_eq demo_booked_eq demo_defs stage_defs committed_def)


lemma demo_second_eq:
  "demo_second =
     demo_done\<lparr>bookings := bookings demo_done @
                 [\<lparr>booking_id = 2, customer_id = 2, b_vehicle_id = 1, b_package_id = 2,
                   booking_datetime = ''2025-12-27 11:00:00'', scheduled_datetime = Some ''2025-12-28 15:30'',
                   status = Booked, current_stage_id = Some 1, b_notes = None\<rparr>],
               payments := payments demo_done @
                 [\<lparr>payment_id = 2, p_booking_id = 2, amount = 800, p_method = Cash,
                   payment_status = Unpaid, paid_at = None\<rparr>],
               seq_bookings := 2, seq_payments := 2\<rparr>"
  by (simp add: demo_second_def demo_done_eq demo_drying_eq demo_booked_eq demo_defs create_defs committed_def)



lemma loose_drying_run:
  "page_update_stage demo_booked 3 1 ''Drying'' False ''2025-12-27 10:20:00'' ''2025-12-27 10:20:01''
     = Inr loose_drying"
  by (simp add: loose_drying_def demo_booked_eq demo_defs stage_defs committed_def)

lemma loose_drying_eq: "loose_drying = demo_drying"
  by (simp add: loose_drying_def demo_drying_eq demo_booked_eq demo_defs stage_defs committed_def)

lemma loose_polishing_run:
  "page_update_stage loose_drying 3 1 ''Polishing'' False ''2025-12-27 10:30:00'' ''2025-12-27 10:30:01''
     = Inr loose_polishing"
  by (simp add: loose_polishing_def loose_drying_eq demo_drying_eq demo_booked_eq demo_defs stage_defs committed_def)

lemma loose_polishing_eq:
  "loose_polishing =
     demo_drying\<lparr>bookings := [\<lparr>booking_id = 1, customer_id = 2, b_vehicle_id = 1, b_package_id = 1,
                 booking_datetime = ''2025-12-27 10:00:00'', scheduled_datetime = None,
                 status = InProgress, current_stage_id = Some 3, b_notes = Some ''wax''\<rparr>],
             booking_stage_history :=
               [\<lparr>history_id = 1, h_booking_id = 1, h_stage_id = 2,
                 start_time = ''2025-12-27 10:20:01'', end_time = None, updated_by_staff_id = 3\<rparr>,
                \<lparr>history_id = 2, h_booking_id = 1, h_stage_id = 3,
                 start_time = ''2025-12-27 10:30:01'', end_time = None, updated_by_staff_id = 3\<rparr>],
             seq_history := 2\<rparr>"
  by (simp add: loose_polishing_def loose_drying_eq demo_drying_eq demo_booked_eq demo_defs stage_defs committed_def)

lemma loose_back_run:
  "page_update_stage loose_polishing 3 1 ''Drying'' True ''2025-12-27 10:35:00'' ''2025-12-27 10:35:01''
     = Inr loose_back"
  by (simp add: loose_back_def loose_polishing_eq demo_drying_eq demo_booked_eq demo_defs stage_defs committed_def)

lemma loose_back_eq:
  "loose_back =
     loose_polishing\<lparr>bookings := [\<lparr>booking_id = 1, customer_id = 2, b_vehicle_id = 1, b_package_id = 1,
                 booking_datetime = ''2025-12-27 10:00:00'', scheduled_datetime = None,
                 status = InProgress, current_stage_id = Some 2, b_notes = Some ''wax''\<rparr>],
             booking_stage_history :=
               [\<lparr>history_id = 1, h_booking_id = 1, h_stage_id = 2,
                 start_time = ''2025-12-27 10:20:01'', end_time = None, updated_by_staff_id = 3\<rparr>,
                \<lparr>history_id = 2, h_booking_id = 1, h_stage_id = 3,
                 start_time = ''2025-12-27 10:30:01'', end_time = Some ''2025-12-27 10:35:00'',
                 updated_by_staff_id = 3\<rparr>,
                \<lparr>history_id = 3, h_booking_id = 1, h_stage_id = 2,
                 start_time = ''2025-12-27 10:35:01'', end_time = None, updated_by_staff_id = 3\<rparr>],
             seq_history := 3\<rparr>"
  by (simp add: loose_back_def loose_polishing_eq demo_drying_eq demo_booked_eq demo_defs stage_defs committed_def)

lemma twice_drying_run:
  "page_update_stage loose_drying 3 1 ''Drying'' False ''2025-12-27 10:25:00'' ''2025-12-27 10:25:01''
     = Inr twice_drying"
  by (simp add: twice_drying_def loose_drying_eq demo_drying_eq demo_booked_eq demo_defs stage_defs committed_def)

lemma twice_drying_eq:
  "twice_drying =
     demo_drying\<lparr>booking_stage_history :=
               [\<lparr>history_id = 1, h_booking_id = 1, h_stage_id = 2,
                 start_time = ''2025-12-27 10:20:01'', end_time = None, updated_by_staff_id = 3\<rparr>,
                \<lparr>history_id = 2, h_booking_id = 1, h_stage_id = 2,
                 start_time = ''2025-12-27 10:25:01'', end_time = None, updated_by_staff_id = 3\<rparr>],
             seq_history := 2\<rparr>"
  by (simp add: twice_drying_def loose_drying_eq demo_drying_eq demo_booked_eq demo_defs stage_defs committed_def)

lemma twice_closed_run:
  "page_update_stage twice_drying 3 1 ''Polishing'' True ''2025-12-27 10:30:00'' ''2025-12-27 10:30:01''
     = Inr twice_closed"
  by (simp add: twice_closed_def twice_drying_eq demo_drying_eq demo_booked_eq demo_defs stage_defs committed_def)

lemma twice_closed_eq:
  "twice_closed =
     twice_drying\<lparr>bookings := [\<lparr>booking_id = 1, customer_id = 2, b_vehicle_id = 1, b_package_id = 1,
                 booking_datetime = ''2025-12-27 10:00:00'', scheduled_datetime = None,
                 status = InProgress, current_stage_id = Some 3, b_notes = Some ''wax''\<rparr>],
             booking_stage_history :=
               [\<lparr>history_id = 1, h_booking_id = 1, h_stage_id = 2,
                 start_time = ''2025-12-27 10:20:01'', end_time = Some ''2025-12-27 10:30:00'',
                 updated_by_staff_id = 3\<rparr>,
                \<lparr>history_id = 2, h_booking_id = 1, h_stage_id = 2,
                 start_time = ''2025-12-27 10:25:01'', end_time = Some ''2025-12-27 10:30:00'',
                 updated_by_staff_id = 3\<rparr>,
                \<lparr>history_id = 3, h_booking_id = 1, h_stage_id = 3,
                 start_time = ''2025-12-27 10:30:01'', end_time = None, updated_by_staff_id = 3\<rparr>],
             seq_history := 3\<rparr>"
  by (simp add: twice_closed_def twice_drying_eq demo_drying_eq demo_booked_eq demo_defs stage_defs committed_def)

lemma demo_booked_open: "open_at_current demo_booked 1"
  by (simp add: open_at_current_def open_entries_def current_of_def demo_booked_eq demo_defs)

lemma demo_drying_current: "current_of demo_drying 1 = Some (Some 2, InProgress)"
  by (simp add: current_of_def demo_drying_eq demo_booked_eq demo_defs)

lemma demo_done_finished:
  "\<forall>b\<in>set (bookings demo_done). booking_id b = 1 \<longrightarrow> status b = Completed \<or> status b = Cancelled"
  by (simp add: demo_done_eq)

lemmas payment_defs = page_update_payment_def update_payment_def payment_of_def assignment_form_def
  all_booking_ids_def staff_rows_def paid_time_def

lemma demo_paid_run:
  "page_update_payment demo_second 1 Card Paid ''2025-12-27 10:45:00'' = Inr demo_paid"
  by (simp add: demo_paid_def demo_second_eq demo_done_eq demo_drying_eq demo_booked_eq demo_defs
      payment_defs committed_def)

lemma demo_paid_eq:
  "demo_paid =
     demo_second\<lparr>payments :=
        [\<lparr>payment_id = 1, p_booking_id = 1, amount = 500, p_method = Card,
          payment_status = Paid, paid_at = Some ''2025-12-27 10:45:00''\<rparr>,
         \<lparr>payment_id = 2, p_booking_id = 2, amount = 800, p_method = Cash,
          payment_status = Unpaid, paid_at = None\<rparr>]\<rparr>"
  by (simp add: demo_paid_def demo_second_eq demo_done_eq demo_drying_eq demo_booked_eq demo_defs
      payment_defs committed_def)

lemma demo_refunded_run:
  "page_update_payment demo_paid 1 Card Refunded ''2025-12-27 12:00:00'' = Inr demo_refunded"
  by (simp add: demo_refunded_def demo_paid_eq demo_second_eq demo_done_eq demo_drying_eq demo_booked_eq
      demo_defs payment_defs committed_def)

lemma demo_refunded_eq:
  "demo_refunded =
     demo_second\<lparr>payments :=
        [\<lparr>payment_id = 1, p_booking_id = 1, amount = 500, p_method = Card,
          payment_status = Refunded, paid_at = None\<rparr>,
         \<lparr>payment_id = 2, p_booking_id = 2, amount = 800, p_method = Cash,
          payment_status = Unpaid, paid_at = None\<rparr>]\<rparr>"
  by (simp add: demo_refunded_def demo_paid_eq demo_second_eq demo_done_eq demo_drying_eq demo_booked_eq
      demo_defs payment_defs committed_def)

lemma demo_second_payments:
  "payments demo_second =
        [\<lparr>payment_id = 1, p_booking_id = 1, amount = 500, p_method = Cash,
          payment_status = Unpaid, paid_at = None\<rparr>,
         \<lparr>payment_id = 2, p_booking_id = 2, amount = 800, p_method = Cash,
          payment_status = Unpaid, paid_at = None\<rparr>]"
  by (simp add: demo_second_eq demo_done_eq demo_drying_eq demo_booked_eq)

lemma demo_two_updates:
  "update_payments demo_second
      [(1, Card, Paid, ''2025-12-27 10:45:00''), (1, Card, Refunded, ''2025-12-27 12:00:00'')]
    = demo_refunded"
  unfolding update_payments.simps demo_paid_run demo_refunded_run committed_def sum.case
  by (rule refl)

lemmas assignment_defs = page_save_assignment_def assignment_form_def all_booking_ids_def staff_rows_def
  insert_assignment_def assignment_keys_def

lemma demo_assigned_run:
  "page_save_assignment demo_booked 1 [(3, ''2025-12-27 10:05:00'')] = Inr demo_assigned"
  by (simp add: demo_assigned_def demo_booked_eq demo_defs assignment_defs committed_def)

lemma demo_assigned_eq:
  "demo_assigned =
     demo_booked\<lparr>booking_staff_assignment :=
        [\<lparr>a_booking_id = 1, staff_id = 3, assigned_at = ''2025-12-27 10:05:00''\<rparr>]\<rparr>"
  by (simp add: demo_assigned_def demo_booked_eq demo_defs assignment_defs committed_def)

lemma demo_booked_keys: "distinct (assignment_keys demo_booked)"
  by (simp add: assignment_keys_def demo_booked_eq demo_defs)

lemmas mirror_defs = mirror_db_def mirror_stages_def

lemma mirror_booked_run:
  "page_create_booking mirror_db 2 1 1 [] [] ''2025-12-27 10:00:00'' = Inr mirror_booked"
  by (simp add: mirror_booked_def mirror_defs demo_defs create_defs committed_def)

lemma mirror_booked_eq:
  "mirror_booked =
     mirror_db\<lparr>bookings := [\<lparr>booking_id = 1, customer_id = 2, b_vehicle_id = 1, b_package_id = 1,
                 booking_datetime = ''2025-12-27 10:00:00'', scheduled_datetime = None,
                 status = Booked, current_stage_id = Some 4, b_notes = None\<rparr>],
             payments := [\<lparr>payment_id = 1, p_booking_id = 1, amount = 500, p_method = Cash,
                 payment_status = Unpaid, paid_at = None\<rparr>],
             seq_bookings := 1, seq_payments := 1\<rparr>"
  by (simp add: mirror_booked_def mirror_defs demo_defs create_defs committed_def)

lemma mirror_drying_run:
  "page_update_stage mirror_booked 3 1 ''Drying'' True ''2025-12-27 10:20:00'' ''2025-12-27 10:20:01''
     = Inr mirror_drying"
  by (simp add: mirror_drying_def mirror_booked_eq mirror_defs demo_defs stage_defs committed_def)

lemma mirror_drying_eq:
  "mirror_drying =
     mirror_booked\<lparr>bookings := [\<lparr>booking_id = 1, customer_id = 2, b_vehicle_id = 1, b_package_id = 1,
                 booking_datetime = ''2025-12-27 10:00:00'', scheduled_datetime = None,
                 status = InProgress, current_stage_id = Some 3, b_notes = None\<rparr>],
             booking_stage_history := [\<lparr>history_id = 1, h_booking_id = 1, h_stage_id = 3,
                 start_time = ''2025-12-27 10:20:01'', end_time = None, updated_by_staff_id = 3\<rparr>],
             seq_history := 1\<rparr>"
  by (simp add: mirror_drying_def mirror_booked_eq mirror_defs demo_defs stage_defs committed_def)

lemma mirror_done_run:
  "page_update_stage mirror_drying 3 1 ''Completed'' True ''2025-12-27 10:40:00'' ''2025-12-27 10:40:01''
     = Inr mirror_done"
  by (simp add: mirror_done_def mirror_drying_eq mirror_booked_eq mirror_defs demo_defs stage_defs committed_def)

lemma mirror_done_eq:
  "mirror_done =
     mirror_drying\<lparr>bookings := [\<lparr>booking_id = 1, customer_id = 2, b_vehicle_id = 1, b_package_id = 1,
                 booking_datetime = ''2025-12-27 10:00:00'', scheduled_datetime = None,
                 status = Completed, current_stage_id = Some 1, b_notes = None\<rparr>],
             booking_stage_history :=
               [\<lparr>history_id = 1, h_booking_id = 1, h_stage_id = 3,
                 start_time = ''2025-12-27 10:20:01'', end_time = Some ''2025-12-27 10:40:00'',
                 updated_by_staff_id = 3\<rparr>,
                \<lparr>history_id = 2, h_booking_id = 1, h_stage_id = 1,
                 start_time = ''2025-12-27 10:40:01'', end_time = None, updated_by_staff_id = 3\<rparr>],
             seq_history := 2\<rparr>"
  by (simp add: mirror_done_def mirror_drying_eq mirror_booked_eq mirror_defs demo_defs stage_defs committed_def)

lemma mirror_stage_keys:
  "distinct (map stage_id (service_stages mirror_booked))"
  "distinct (map stage_name (service_stages mirror_booked))"
  "distinct (map stage_id (service_stages mirror_drying))"
  "distinct (map stage_name (service_stages mirror_drying))"
  by (simp_all add: mirror_drying_eq mirror_booked_eq mirror_defs)


lemma demo_both_assigned_eq:
  "demo_both_assigned =
     demo_booked\<lparr>booking_staff_assignment :=
        [\<lparr>a_booking_id = 1, staff_id = 3, assigned_at = ''2025-12-27 10:05:00''\<rparr>,
         \<lparr>a_booking_id = 1, staff_id = 1, assigned_at = ''2025-12-27 10:06:01''\<rparr>]\<rparr>"
  by (simp add: demo_both_assigned_def demo_assigned_eq demo_booked_eq demo_defs assignment_defs committed_def)

lemma demo_db_seeded: "seeded demo_db"
  by (simp add: seeded_def demo_defs)

lemmas init_defs = init_db_def insert_stage_def insert_package_def insert_user_def
  next_rowid_def rowid_full_def

lemma reseeded_db_run: "init_db bare_db ''2025-12-27 09:59:00'' = Inr reseeded_db"
  by (simp add: reseeded_db_def bare_db_def demo_defs init_defs committed_def)

lemma reseeded_db_eq:
  "reseeded_db =
     demo_db\<lparr>service_stages :=
               [\<lparr>stage_id = 5, stage_name = ''Washing'', stage_order = 1\<rparr>,
                \<lparr>stage_id = 6, stage_name = ''Drying'', stage_order = 2\<rparr>,
                \<lparr>stage_id = 7, stage_name = ''Polishing'', stage_order = 3\<rparr>,
                \<lparr>stage_id = 8, stage_name = ''Completed'', stage_order = 4\<rparr>],
             seq_stages := 8\<rparr>"
  by (simp add: reseeded_db_def bare_db_def demo_defs init_defs committed_def)

lemma reseeded_booked_run:
  "page_create_booking reseeded_db 2 1 1 [] [] ''2025-12-27 10:00:00'' = Inr reseeded_booked"
  by (simp add: reseeded_booked_def reseeded_db_eq demo_defs create_defs committed_def)

lemma reseeded_booked_rows:
  "map (\<lambda>b. (booking_id b, status b, current_stage_id b)) (bookings reseeded_booked) = [(1, Booked, Some 5)]"
  by (simp add: reseeded_booked_def reseeded_db_eq demo_defs create_defs committed_def)

section \<open>The claims\<close>

text \<open>
  C1. Take a stage table that respects its primary key and the uniqueness of its names.
  Whenever Update Stage commits, the stage chosen by name is a row of the table, the
  booking then stands at that stage, and its status is Completed if the
  \<^verbatim>\<open>stage_order\<close> of that row is the largest of the table the handler read, and
  InProgress if it is not. The stage the booking came from plays no part, and neither
  does the identifier of the stage.
\<close>

theorem advance_status_by_order:
  assumes run: "page_update_stage d staff bid nm ep now1 now2 = Inr d'"
      and ids: "distinct (map stage_id (service_stages d))"
      and names: "distinct (map stage_name (service_stages d))"
  shows "(\<exists>s\<in>set (service_stages d). stage_name s = nm)
       \<and> (\<exists>b\<in>set (bookings d'). booking_id b = bid)
       \<and> (\<forall>s\<in>set (service_stages d). stage_name s = nm \<longrightarrow>
            (\<forall>b\<in>set (bookings d'). booking_id b = bid \<longrightarrow>
               current_stage_id b = Some (stage_id s)
               \<and> status b = (if stage_order s = Max (stage_order ` set (service_stages d))
                             then Completed else InProgress)))"
proof -
  from page_update_stage_InrD[OF run] obtain cur st
    where body: "update_stage d bid cur nm ep staff now1 now2 = Inr d'" by blast
  from update_stage_InrD[OF body] obtain sid so
    where sid: "stage_map (get_stage_list d) nm = Some sid"
      and so: "stage_order_of d sid = Some so"
      and bid: "bid \<in> set (map booking_id (bookings d))"
      and bs: "bookings d' = set_stage (bookings d) bid sid
                 (if Some so = max_stage_order d then Completed else InProgress)"
    by blast
  from stage_map_SomeD[OF sid] obtain s0
    where s0: "s0 \<in> set (service_stages d)" and n0: "stage_name s0 = nm" and i0: "stage_id s0 = sid"
    by blast
  from stage_order_of_SomeD[OF so] obtain s1
    where s1: "s1 \<in> set (service_stages d)" and i1: "stage_id s1 = sid" and o1: "stage_order s1 = so"
    by blast
  from same_row_by_key[OF ids s0 s1] i0 i1 have "s0 = s1" by simp
  with o1 have o0: "stage_order s0 = so" by simp
  from s0 have ne: "service_stages d \<noteq> []" by auto
  have mx: "(Some so = max_stage_order d) = (so = Max (stage_order ` set (service_stages d)))"
    by (auto simp: max_stage_order_eq[OF ne])
  have ex_stage: "\<exists>s\<in>set (service_stages d). stage_name s = nm" using s0 n0 by blast
  have ex: "\<exists>b\<in>set (bookings d'). booking_id b = bid"
    unfolding bs by (rule set_stage_exists[OF bid])
  have all: "\<forall>s\<in>set (service_stages d). stage_name s = nm \<longrightarrow>
            (\<forall>b\<in>set (bookings d'). booking_id b = bid \<longrightarrow>
               current_stage_id b = Some (stage_id s)
               \<and> status b = (if stage_order s = Max (stage_order ` set (service_stages d))
                             then Completed else InProgress))"
  proof (intro ballI impI)
    fix s b
    assume s: "s \<in> set (service_stages d)" and n: "stage_name s = nm"
      and b: "b \<in> set (bookings d')" and k: "booking_id b = bid"
    from same_row_by_key[OF names s s0] n n0 have "s = s0" by simp
    with i0 o0 have row: "stage_id s = sid" "stage_order s = so" by simp_all
    from set_stage_member[of b "bookings d" bid sid] b k
    show "current_stage_id b = Some (stage_id s)
        \<and> status b = (if stage_order s = Max (stage_order ` set (service_stages d))
                      then Completed else InProgress)"
      by (simp add: bs mx row)
  qed
  from ex_stage ex all show ?thesis by (intro conjI)
qed

theorem advance_status_by_order_witness:
  "map (\<lambda>s. (stage_id s, stage_name s, stage_order s)) (service_stages mirror_booked)
     = [(1, ''Completed'', 4), (2, ''Polishing'', 3), (3, ''Drying'', 2), (4, ''Washing'', 1)]
   \<and> page_update_stage mirror_booked 3 1 ''Drying'' True ''2025-12-27 10:20:00'' ''2025-12-27 10:20:01''
     = Inr mirror_drying
   \<and> map (\<lambda>b. (booking_id b, current_stage_id b, status b)) (bookings mirror_drying)
       = [(1, Some 3, InProgress)]
   \<and> page_update_stage mirror_drying 3 1 ''Completed'' True ''2025-12-27 10:40:00'' ''2025-12-27 10:40:01''
     = Inr mirror_done
   \<and> map (\<lambda>b. (booking_id b, current_stage_id b, status b)) (bookings mirror_done)
       = [(1, Some 1, Completed)]"
  using advance_status_by_order[OF mirror_drying_run mirror_stage_keys(1) mirror_stage_keys(2)]
    advance_status_by_order[OF mirror_done_run mirror_stage_keys(3) mirror_stage_keys(4)]
    mirror_drying_run mirror_done_run
  by (simp add: mirror_done_eq mirror_drying_eq mirror_booked_eq mirror_defs)



text \<open>
  C3, as amended. Take a booking whose open history entries all belong to the stage it
  stands at; this holds for a new booking, and the claim shows it is kept. When Update
  Stage commits on it with "End previous stage" ticked, the booking has exactly one
  open history entry afterwards, hence at most one, and its open entries again belong
  to the stage it stands at. Without the hypothesis the bound fails: an earlier run
  with the box unticked leaves an open entry at another stage, which a later run with
  the box ticked does not close.
\<close>

theorem one_open_entry_after_closing_advance:
  assumes run: "page_update_stage d staff bid nm True now1 now2 = Inr d'"
      and inv: "open_at_current d bid"
  shows "length (open_entries d' bid) = 1 \<and> open_at_current d' bid"
proof -
  from page_update_stage_InrD[OF run] obtain cur st
    where cur: "current_of d bid = Some (cur, st)"
      and body: "update_stage d bid cur nm True staff now1 now2 = Inr d'" by blast
  from update_stage_InrD[OF body] obtain sid so
    where bid: "bid \<in> set (map booking_id (bookings d))"
      and bs: "bookings d' = set_stage (bookings d) bid sid
                 (if Some so = max_stage_order d then Completed else InProgress)"
      and hs: "booking_stage_history d' = closed_history d bid cur True now1 @
                 [\<lparr>history_id = next_rowid (seq_history d) (map history_id (booking_stage_history d)),
                   h_booking_id = bid, h_stage_id = sid, start_time = now2, end_time = None,
                   updated_by_staff_id = staff\<rparr>]"
    by blast
  let ?new = "\<lparr>history_id = next_rowid (seq_history d) (map history_id (booking_stage_history d)),
                   h_booking_id = bid, h_stage_id = sid, start_time = now2, end_time = None,
                   updated_by_staff_id = staff\<rparr>"
  from inv cur have all: "list_all (\<lambda>h. cur = Some (h_stage_id h)) (open_entries d bid)"
    by (simp add: open_at_current_def)
  have none: "filter (\<lambda>h. h_booking_id h = bid \<and> end_time h = None) (closed_history d bid cur True now1) = []"
  proof (cases cur)
    case None
    with all have "list_all (\<lambda>h. False) (open_entries d bid)" by simp
    then have "open_entries d bid = []" by (rule list_all_False_Nil)
    with None show ?thesis by (simp add: closed_history_def open_entries_def)
  next
    case (Some cs)
    with all have "list_all (\<lambda>h. h_stage_id h = cs)
        (filter (\<lambda>h. h_booking_id h = bid \<and> end_time h = None) (booking_stage_history d))"
      by (simp add: open_entries_def eq_commute)
    from close_previous_leaves_none_open[OF this] Some show ?thesis
      by (simp add: closed_history_def)
  qed
  have opn: "open_entries d' bid = [?new]"
    by (simp add: open_entries_def hs none)
  have cur': "current_of d' bid = Some (Some sid, if Some so = max_stage_order d then Completed else InProgress)"
    using current_of_set_stage[OF bid] by (simp add: current_of_def bs)
  have "open_at_current d' bid"
    by (simp add: open_at_current_def cur' opn)
  with opn show ?thesis by simp
qed

theorem one_open_entry_after_closing_advance_witness:
  "page_update_stage demo_booked 3 1 ''Drying'' True ''2025-12-27 10:20:00'' ''2025-12-27 10:20:01''
     = Inr demo_drying
   \<and> open_at_current demo_booked 1
   \<and> map history_id (open_entries demo_drying 1) = [1]
   \<and> open_at_current demo_drying 1
   \<and> page_update_stage demo_drying 3 1 ''Completed'' True ''2025-12-27 10:40:00'' ''2025-12-27 10:40:01''
     = Inr demo_done
   \<and> map (\<lambda>h. (history_id h, end_time h)) (booking_stage_history demo_done)
       = [(1, Some ''2025-12-27 10:40:00''), (2, None)]
   \<and> map history_id (open_entries demo_done 1) = [2]"
proof -
  note first = one_open_entry_after_closing_advance[OF demo_drying_run demo_booked_open]
  then have kept: "open_at_current demo_drying 1" by blast
  note second = one_open_entry_after_closing_advance[OF demo_done_run kept]
  have a: "map history_id (open_entries demo_drying 1) = [1]"
    by (simp add: open_entries_def demo_drying_eq)
  have b: "map (\<lambda>h. (history_id h, end_time h)) (booking_stage_history demo_done)
       = [(1, Some ''2025-12-27 10:40:00''), (2, None)]"
    by (simp add: demo_done_eq)
  have c: "map history_id (open_entries demo_done 1) = [2]"
    by (simp add: open_entries_def demo_done_eq)
  from second have "length (open_entries demo_done 1) = 1" by blast
  with demo_drying_run demo_booked_open a kept demo_done_run b c show ?thesis by (intro conjI)
qed

text \<open>
  The claim as stated, for every sequence of operations, fails: the booking is moved
  to Drying and to Polishing with the box unticked, and then back to Drying with the
  box ticked. The last run closes the entry of Polishing and opens a second entry of
  Drying, while the first entry of Drying is still open.
\<close>

theorem open_entries_counterexample:
  "page_update_stage demo_booked 3 1 ''Drying'' False ''2025-12-27 10:20:00'' ''2025-12-27 10:20:01''
     = Inr loose_drying
   \<and> page_update_stage loose_drying 3 1 ''Polishing'' False ''2025-12-27 10:30:00'' ''2025-12-27 10:30:01''
     = Inr loose_polishing
   \<and> page_update_stage loose_polishing 3 1 ''Drying'' True ''2025-12-27 10:35:00'' ''2025-12-27 10:35:01''
     = Inr loose_back
   \<and> map (\<lambda>h. (history_id h, h_stage_id h, end_time h)) (open_entries loose_back 1)
       = [(1, 2, None), (3, 2, None)]
   \<and> \<not> length (open_entries loose_back 1) \<le> 1"
  using loose_drying_run loose_polishing_run loose_back_run
  by (simp add: open_entries_def loose_back_eq loose_polishing_eq demo_drying_eq demo_booked_eq demo_defs)

text \<open>
  C4, as amended. When Update Stage commits with "End previous stage" ticked on a
  booking that has a current stage, the history table grows by the new row, and every
  earlier row that is open for the booking at that stage gets the first clock reading
  as its end time, while every other earlier row stays as it was. With no such open
  row the earlier rows are unchanged and the handler still commits; with at most one
  the result is the one the specification describes, closing the most recent entry
  only. With two open rows for the booking at its stage both are closed, not the
  most recent one alone.
\<close>

theorem closing_advance_closes_every_open_entry:
  assumes run: "page_update_stage d staff bid nm True now1 now2 = Inr d'"
      and cur: "current_of d bid = Some (Some cs, st)"
  shows "length (booking_stage_history d') = Suc (length (booking_stage_history d))
    \<and> (\<forall>i < length (booking_stage_history d).
          booking_stage_history d' ! i =
            (if open_for bid cs (booking_stage_history d ! i)
             then (booking_stage_history d ! i)\<lparr>end_time := Some now1\<rparr>
             else booking_stage_history d ! i))
    \<and> (filter (open_for bid cs) (booking_stage_history d) = [] \<longrightarrow>
          take (length (booking_stage_history d)) (booking_stage_history d') = booking_stage_history d)
    \<and> (length (filter (open_for bid cs) (booking_stage_history d)) \<le> 1 \<longrightarrow>
          take (length (booking_stage_history d)) (booking_stage_history d')
            = spec_close_most_recent (booking_stage_history d) bid cs now1)"
proof -
  let ?hs = "booking_stage_history d"
  from page_update_stage_InrD[OF run] cur
  have body: "update_stage d bid (Some cs) nm True staff now1 now2 = Inr d'" by auto
  from update_stage_InrD[OF body] obtain hnew
    where hs: "booking_stage_history d' = close_previous ?hs bid cs now1 @ [hnew]"
    by (auto simp: closed_history_def)
  have len: "length (booking_stage_history d') = Suc (length ?hs)" by (simp add: hs)
  have nth: "\<forall>i < length ?hs. booking_stage_history d' ! i =
            (if open_for bid cs (?hs ! i) then (?hs ! i)\<lparr>end_time := Some now1\<rparr> else ?hs ! i)"
    by (simp add: hs nth_append close_previous_open_for)
  have tk: "take (length ?hs) (booking_stage_history d') = close_previous ?hs bid cs now1"
    by (simp add: hs)
  from len nth show ?thesis
    by (simp add: tk close_previous_none_open close_previous_at_most_one_open)
qed

theorem closing_advance_closes_every_open_entry_witness:
  "page_update_stage demo_drying 3 1 ''Completed'' True ''2025-12-27 10:40:00'' ''2025-12-27 10:40:01''
     = Inr demo_done
   \<and> current_of demo_drying 1 = Some (Some 2, InProgress)
   \<and> map (\<lambda>h. (history_id h, h_stage_id h, end_time h)) (booking_stage_history demo_drying)
       = [(1, 2, None)]
   \<and> map (\<lambda>h. (history_id h, h_stage_id h, end_time h)) (booking_stage_history demo_done)
       = [(1, 2, Some ''2025-12-27 10:40:00''), (2, 4, None)]
   \<and> take 1 (booking_stage_history demo_done)
       = spec_close_most_recent (booking_stage_history demo_drying) 1 2 ''2025-12-27 10:40:00''"
  using closing_advance_closes_every_open_entry[OF demo_done_run demo_drying_current]
    demo_done_run demo_drying_current
  by (simp add: demo_done_eq demo_drying_eq demo_booked_eq demo_defs open_for_def
      spec_close_most_recent_def spec_most_recent_open_def)

text \<open>
  The claim as stated, exactly the most recent entry and no other, fails: the booking
  is saved at Drying twice with the box unticked, which leaves two open entries of
  Drying, and is then moved to Polishing with the box ticked. Both entries get the end
  time, where the specification's step would close the second one only.
\<close>

theorem closes_only_most_recent_counterexample:
  "page_update_stage demo_booked 3 1 ''Drying'' False ''2025-12-27 10:20:00'' ''2025-12-27 10:20:01''
     = Inr loose_drying
   \<and> page_update_stage loose_drying 3 1 ''Drying'' False ''2025-12-27 10:25:00'' ''2025-12-27 10:25:01''
     = Inr twice_drying
   \<and> page_update_stage twice_drying 3 1 ''Polishing'' True ''2025-12-27 10:30:00'' ''2025-12-27 10:30:01''
     = Inr twice_closed
   \<and> current_of twice_drying 1 = Some (Some 2, InProgress)
   \<and> map (\<lambda>h. (history_id h, h_stage_id h, end_time h)) (booking_stage_history twice_drying)
       = [(1, 2, None), (2, 2, None)]
   \<and> map (\<lambda>h. (history_id h, h_stage_id h, end_time h)) (booking_stage_history twice_closed)
       = [(1, 2, Some ''2025-12-27 10:30:00''), (2, 2, Some ''2025-12-27 10:30:00''), (3, 3, None)]
   \<and> map (\<lambda>h. (history_id h, h_stage_id h, end_time h))
        (spec_close_most_recent (booking_stage_history twice_drying) 1 2 ''2025-12-27 10:30:00'')
       = [(1, 2, None), (2, 2, Some ''2025-12-27 10:30:00'')]
   \<and> take 2 (booking_stage_history twice_closed)
       \<noteq> spec_close_most_recent (booking_stage_history twice_drying) 1 2 ''2025-12-27 10:30:00''"
  using loose_drying_run twice_drying_run twice_closed_run
  by (simp add: current_of_def twice_closed_eq twice_drying_eq demo_drying_eq demo_booked_eq demo_defs
      open_for_def spec_close_most_recent_def spec_most_recent_open_def)

text \<open>
  C5, as amended. The script has no InvalidTransition error, nor any other typed error.
  A booking whose status is Completed or Cancelled is not among the bookings the select
  box of Update Stage lists, so no stage update can be made on it: nothing is raised,
  and the database, with the booking, its history and its payment, is what it was. The
  body of the button does not look at the status of the booking.
\<close>

theorem finished_booking_not_offered:
  assumes "\<forall>b\<in>set (bookings d). booking_id b = bid \<longrightarrow> status b = Completed \<or> status b = Cancelled"
  shows "page_update_stage d staff bid nm ep now1 now2 = Inl NotOffered
       \<and> \<not> raises (page_update_stage d staff bid nm ep now1 now2)
       \<and> committed d (page_update_stage d staff bid nm ep now1 now2) = d"
proof -
  from assms have "list_all (\<lambda>b. booking_id b = bid \<longrightarrow> status b = Completed \<or> status b = Cancelled) (bookings d)"
    by (simp add: list_all_iff)
  from finished_not_active[OF this] have "bid \<notin> set (active_booking_ids d)"
    by (simp add: active_booking_ids_set)
  then have "page_update_stage d staff bid nm ep now1 now2 = Inl NotOffered"
    by (simp add: page_update_stage_def Let_def)
  then show ?thesis by (simp add: raises_def committed_def)
qed

theorem finished_booking_not_offered_witness:
  "map (\<lambda>b. (booking_id b, status b)) (bookings demo_done) = [(1, Completed)]
   \<and> page_update_stage demo_done 3 1 ''Polishing'' True ''2025-12-27 10:50:00'' ''2025-12-27 10:50:01''
       = Inl NotOffered
   \<and> committed demo_done
        (page_update_stage demo_done 3 1 ''Polishing'' True ''2025-12-27 10:50:00'' ''2025-12-27 10:50:01'')
       = demo_done"
proof -
  have rows: "map (\<lambda>b. (booking_id b, status b)) (bookings demo_done) = [(1, Completed)]"
    by (simp add: demo_done_eq)
  from rows finished_booking_not_offered[OF demo_done_finished, of 3 "''Polishing''" True
      "''2025-12-27 10:50:00''" "''2025-12-27 10:50:01''"]
  show ?thesis by blast
qed

text \<open>
  The claim as stated, a failure with InvalidTransition, fails: for the completed
  booking the page offers no update and raises nothing. The body of the button, were
  it run on the same booking, would commit and set the booking back to InProgress.
\<close>

theorem invalid_transition_counterexample:
  "map (\<lambda>b. (booking_id b, status b)) (bookings demo_done) = [(1, Completed)]
   \<and> page_update_stage demo_done 3 1 ''Drying'' True ''2025-12-27 10:50:00'' ''2025-12-27 10:50:01''
       = Inl NotOffered
   \<and> \<not> raises (page_update_stage demo_done 3 1 ''Drying'' True ''2025-12-27 10:50:00'' ''2025-12-27 10:50:01'')
   \<and> map (\<lambda>b. (booking_id b, status b, current_stage_id b))
        (bookings (committed demo_done
           (update_stage demo_done 1 (Some 4) ''Drying'' True 3 ''2025-12-27 10:50:00'' ''2025-12-27 10:50:01'')))
       = [(1, InProgress, Some 2)]"
  by (simp add: raises_def committed_def demo_done_eq demo_drying_eq demo_booked_eq demo_defs stage_defs)

text \<open>
  C6, as amended. The script has no NotFound and no InvalidState error. On a database
  as the page reads it, seeded by \<^verbatim>\<open>init_db\<close>, Create Booking is not offered for a
  vehicle that is missing from the table or that belongs to another customer, for a
  package that is missing, or for a package that is not active: nothing is raised and
  nothing is committed, so no booking and no payment row is created. The body of the
  button does not look at \<^verbatim>\<open>is_active\<close>. Nothing is stated for an empty stage table:
  \<^verbatim>\<open>init_db\<close> fills it with the four default stages before the page runs.
\<close>

theorem create_not_offered:
  assumes r: "r = page_create_booking d uid vid pid scheduled nts now"
      and init: "seeded d"
  shows "(vid \<notin> set (map vehicle_id (vehicles d)) \<longrightarrow>
            r = Inl NotOffered \<and> \<not> raises r \<and> committed d r = d)
       \<and> ((\<forall>v\<in>set (vehicles d). vehicle_id v = vid \<longrightarrow> v_customer_id v \<noteq> uid) \<longrightarrow>
            r = Inl NotOffered \<and> \<not> raises r \<and> committed d r = d)
       \<and> (pid \<notin> set (map package_id (packages d)) \<longrightarrow>
            r = Inl NotOffered \<and> \<not> raises r \<and> committed d r = d)
       \<and> ((\<forall>p\<in>set (packages d). package_id p = pid \<longrightarrow> \<not> is_active p) \<longrightarrow>
            r = Inl NotOffered \<and> \<not> raises r \<and> committed d r = d)"
proof -
  have off: "r = Inl NotOffered \<Longrightarrow> r = Inl NotOffered \<and> \<not> raises r \<and> committed d r = d"
    by (simp add: raises_def committed_def)
  have own: "(\<forall>v\<in>set (vehicles d). vehicle_id v = vid \<longrightarrow> v_customer_id v \<noteq> uid) \<Longrightarrow> r = Inl NotOffered"
  proof -
    assume "\<forall>v\<in>set (vehicles d). vehicle_id v = vid \<longrightarrow> v_customer_id v \<noteq> uid"
    then have "list_all (\<lambda>v. vehicle_id v = vid \<longrightarrow> v_customer_id v \<noteq> uid) (vehicles d)"
      by (simp add: list_all_iff)
    from not_own_vehicle_not_listed[OF this]
    have "vid \<notin> set (map vehicle_id (customer_vehicles d uid))"
      by (simp only: customer_vehicles_ids not_False_eq_True)
    then show "r = Inl NotOffered" unfolding r using page_create_booking_not_offered by blast
  qed
  have act: "(\<forall>p\<in>set (packages d). package_id p = pid \<longrightarrow> \<not> is_active p) \<Longrightarrow> r = Inl NotOffered"
  proof -
    assume "\<forall>p\<in>set (packages d). package_id p = pid \<longrightarrow> \<not> is_active p"
    then have "list_all (\<lambda>p. package_id p = pid \<longrightarrow> \<not> is_active p) (packages d)"
      by (simp add: list_all_iff)
    from inactive_not_listed[OF this] have "pid \<notin> set (map package_id (get_active_packages d))"
      by (simp add: get_active_packages_def)
    then show "r = Inl NotOffered" unfolding r using page_create_booking_not_offered by blast
  qed
  have v0: "vid \<notin> set (map vehicle_id (vehicles d)) \<Longrightarrow> r = Inl NotOffered"
  proof -
    assume "vid \<notin> set (map vehicle_id (vehicles d))"
    from missing_key_no_row[OF this]
    have "\<forall>v\<in>set (vehicles d). vehicle_id v = vid \<longrightarrow> v_customer_id v \<noteq> uid"
      unfolding list_all_iff .
    then show "r = Inl NotOffered" by (rule own)
  qed
  have p0: "pid \<notin> set (map package_id (packages d)) \<Longrightarrow> r = Inl NotOffered"
  proof -
    assume "pid \<notin> set (map package_id (packages d))"
    from missing_key_no_row[OF this]
    have "\<forall>p\<in>set (packages d). package_id p = pid \<longrightarrow> \<not> is_active p"
      unfolding list_all_iff .
    then show "r = Inl NotOffered" by (rule act)
  qed
  from off v0 own p0 act show ?thesis by blast
qed

theorem create_not_offered_witness:
  "seeded demo_db
   \<and> map (\<lambda>v. (vehicle_id v, v_customer_id v)) (vehicles demo_db) = [(1, 2), (2, 4)]
   \<and> map (\<lambda>p. (package_id p, is_active p)) (packages demo_db)
       = [(1, True), (2, True), (3, True), (4, False)]
   \<and> page_create_booking demo_db 2 7 1 [] [] ''2025-12-27 10:00:00'' = Inl NotOffered
   \<and> page_create_booking demo_db 2 2 1 [] [] ''2025-12-27 10:00:00'' = Inl NotOffered
   \<and> page_create_booking demo_db 2 1 9 [] [] ''2025-12-27 10:00:00'' = Inl NotOffered
   \<and> page_create_booking demo_db 2 1 4 [] [] ''2025-12-27 10:00:00'' = Inl NotOffered
   \<and> committed demo_db (page_create_booking demo_db 2 2 1 [] [] ''2025-12-27 10:00:00'') = demo_db
   \<and> committed demo_db (page_create_booking demo_db 2 1 4 [] [] ''2025-12-27 10:00:00'') = demo_db"
proof -
  have vs: "map (\<lambda>v. (vehicle_id v, v_customer_id v)) (vehicles demo_db) = [(1, 2), (2, 4)]"
    by (simp add: demo_defs)
  have ps: "map (\<lambda>p. (package_id p, is_active p)) (packages demo_db)
       = [(1, True), (2, True), (3, True), (4, False)]"
    by (simp add: demo_defs)
  have v: "7 \<notin> set (map vehicle_id (vehicles demo_db))"
    by (simp add: demo_defs)
  have o: "\<forall>v\<in>set (vehicles demo_db). vehicle_id v = 2 \<longrightarrow> v_customer_id v \<noteq> 2"
    by (simp add: demo_defs)
  have p: "9 \<notin> set (map package_id (packages demo_db))"
    by (simp add: demo_defs)
  have i: "\<forall>p\<in>set (packages demo_db). package_id p = 4 \<longrightarrow> \<not> is_active p"
    by (simp add: demo_defs)
  from v create_not_offered[where d = demo_db and uid = 2 and vid = 7 and pid = 1
      and scheduled = "[]" and nts = "[]" and now = "''2025-12-27 10:00:00''", OF refl demo_db_seeded]
  have c1: "page_create_booking demo_db 2 7 1 [] [] ''2025-12-27 10:00:00'' = Inl NotOffered" by blast
  from o create_not_offered[where d = demo_db and uid = 2 and vid = 2 and pid = 1
      and scheduled = "[]" and nts = "[]" and now = "''2025-12-27 10:00:00''", OF refl demo_db_seeded]
  have c2: "page_create_booking demo_db 2 2 1 [] [] ''2025-12-27 10:00:00'' = Inl NotOffered"
    and k2: "committed demo_db (page_create_booking demo_db 2 2 1 [] [] ''2025-12-27 10:00:00'') = demo_db"
    by blast+
  from p create_not_offered[where d = demo_db and uid = 2 and vid = 1 and pid = 9
      and scheduled = "[]" and nts = "[]" and now = "''2025-12-27 10:00:00''", OF refl demo_db_seeded]
  have c3: "page_create_booking demo_db 2 1 9 [] [] ''2025-12-27 10:00:00'' = Inl NotOffered" by blast
  from i create_not_offered[where d = demo_db and uid = 2 and vid = 1 and pid = 4
      and scheduled = "[]" and nts = "[]" and now = "''2025-12-27 10:00:00''", OF refl demo_db_seeded]
  have c4: "page_create_booking demo_db 2 1 4 [] [] ''2025-12-27 10:00:00'' = Inl NotOffered"
    and k4: "committed demo_db (page_create_booking demo_db 2 1 4 [] [] ''2025-12-27 10:00:00'') = demo_db"
    by blast+
  from demo_db_seeded vs ps c1 c2 c3 c4 k2 k4 show ?thesis by (intro conjI)
qed

text \<open>
  The claim as stated, a failure with InvalidState for an inactive package, fails: for
  the retired package the page offers no booking and raises nothing. The body of the
  button, were it run on the same package, would commit a booking and its payment.
\<close>

theorem create_typed_errors_counterexample:
  "map (\<lambda>p. (package_id p, is_active p)) (filter (\<lambda>p. package_id p = 4) (packages demo_db)) = [(4, False)]
   \<and> page_create_booking demo_db 2 1 4 [] [] ''2025-12-27 10:00:00'' = Inl NotOffered
   \<and> \<not> raises (page_create_booking demo_db 2 1 4 [] [] ''2025-12-27 10:00:00'')
   \<and> map (\<lambda>b. (booking_id b, b_package_id b, status b))
        (bookings (committed demo_db (create_booking demo_db 2 1 4 [] [] ''2025-12-27 10:00:00'')))
       = [(1, 4, Booked)]
   \<and> map (\<lambda>p. (p_booking_id p, amount p, payment_status p))
        (payments (committed demo_db (create_booking demo_db 2 1 4 [] [] ''2025-12-27 10:00:00'')))
       = [(1, 300, Unpaid)]"
  by (simp add: raises_def committed_def demo_defs create_defs)

text \<open>
  C7. Whenever Update Payment commits, the booking has a payment row, and every payment
  row of the booking carries the chosen method and status, with the clock reading as
  paid time if the status is Paid and no paid time for every other status, whatever
  the row held before. In particular a later update to Refunded leaves no paid time.
\<close>

theorem paid_at_follows_payment_status:
  assumes run: "page_update_payment d bsel m st now = Inr d'"
  shows "(\<exists>p\<in>set (payments d'). p_booking_id p = bsel)
       \<and> (\<forall>p\<in>set (payments d'). p_booking_id p = bsel \<longrightarrow>
             p_method p = m \<and> payment_status p = st
             \<and> paid_at p = (if st = Paid then Some now else None))
       \<and> (\<forall>m2 now2 d2. page_update_payment d' bsel m2 Refunded now2 = Inr d2 \<longrightarrow>
             (\<forall>p\<in>set (payments d2). p_booking_id p = bsel \<longrightarrow> paid_at p = None))"
proof -
  have step: "\<And>d bsel m st now d'. page_update_payment d bsel m st now = Inr d' \<Longrightarrow>
      (\<exists>p\<in>set (payments d'). p_booking_id p = bsel)
       \<and> (\<forall>p\<in>set (payments d'). p_booking_id p = bsel \<longrightarrow>
             p_method p = m \<and> payment_status p = st
             \<and> paid_at p = (if st = Paid then Some now else None))"
  proof -
    fix d bsel m st now d'
    assume r: "page_update_payment d bsel m st now = Inr d'"
    from page_update_payment_InrD[OF r]
    have k: "bsel \<in> set (map p_booking_id (payments d))"
      and d': "payments d' = map (set_payment bsel m st now) (payments d)"
      by (simp_all add: update_payment_rows)
    from k have "bsel \<in> set (map p_booking_id (payments d'))" by (simp only: d' set_payment_booking_ids)
    then have ex: "\<exists>p\<in>set (payments d'). p_booking_id p = bsel" by (rule member_by_key)
    have "\<forall>p\<in>set (payments d'). p_booking_id p = bsel \<longrightarrow>
             p_method p = m \<and> payment_status p = st \<and> paid_at p = paid_time st now"
      using set_payment_all[of bsel m st now "payments d"] unfolding d' list_all_iff .
    then have "\<forall>p\<in>set (payments d'). p_booking_id p = bsel \<longrightarrow>
             p_method p = m \<and> payment_status p = st
             \<and> paid_at p = (if st = Paid then Some now else None)"
      by (simp add: paid_time_def)
    with ex show "(\<exists>p\<in>set (payments d'). p_booking_id p = bsel)
       \<and> (\<forall>p\<in>set (payments d'). p_booking_id p = bsel \<longrightarrow>
             p_method p = m \<and> payment_status p = st
             \<and> paid_at p = (if st = Paid then Some now else None))" by (rule conjI)
  qed
  have later: "\<forall>m2 now2 d2. page_update_payment d' bsel m2 Refunded now2 = Inr d2 \<longrightarrow>
             (\<forall>p\<in>set (payments d2). p_booking_id p = bsel \<longrightarrow> paid_at p = None)"
  proof (intro allI impI)
    fix m2 now2 d2 assume "page_update_payment d' bsel m2 Refunded now2 = Inr d2"
    from step[OF this] show "\<forall>p\<in>set (payments d2). p_booking_id p = bsel \<longrightarrow> paid_at p = None"
      by simp
  qed
  from step[OF run] later show ?thesis by blast
qed

theorem paid_at_follows_payment_status_witness:
  "page_update_payment demo_second 1 Card Paid ''2025-12-27 10:45:00'' = Inr demo_paid
   \<and> map (\<lambda>p. (p_booking_id p, p_method p, payment_status p, paid_at p)) (payments demo_paid)
       = [(1, Card, Paid, Some ''2025-12-27 10:45:00''), (2, Cash, Unpaid, None)]
   \<and> page_update_payment demo_paid 1 Card Refunded ''2025-12-27 12:00:00'' = Inr demo_refunded
   \<and> map (\<lambda>p. (p_booking_id p, p_method p, payment_status p, paid_at p)) (payments demo_refunded)
       = [(1, Card, Refunded, None), (2, Cash, Unpaid, None)]"
  using paid_at_follows_payment_status[OF demo_paid_run] paid_at_follows_payment_status[OF demo_refunded_run]
    demo_paid_run demo_refunded_run
  by (simp add: demo_paid_eq demo_refunded_eq)

text \<open>
  C10. Whatever sequence of Update Payment requests runs, the payment table keeps its
  rows with their identifiers, bookings and amounts, and no other table changes. A
  single committed update changes nothing but the payment table, leaves the rows of
  other bookings as they were, and changes at most the method, the status and the paid
  time of a row.
\<close>

theorem update_payment_touches_three_fields:
  "map (\<lambda>p. (payment_id p, p_booking_id p, amount p)) (payments (update_payments d calls))
      = map (\<lambda>p. (payment_id p, p_booking_id p, amount p)) (payments d)
   \<and> update_payments d calls = d\<lparr>payments := payments (update_payments d calls)\<rparr>
   \<and> (\<forall>d'. page_update_payment d bsel m st now = Inr d' \<longrightarrow>
         d' = d\<lparr>payments := payments d'\<rparr>
         \<and> list_all2 (\<lambda>p p'. (p_booking_id p \<noteq> bsel \<longrightarrow> p' = p)
               \<and> p' = p\<lparr>p_method := p_method p', payment_status := payment_status p',
                        paid_at := paid_at p'\<rparr>)
             (payments d) (payments d'))"
proof -
  have one: "\<forall>d'. page_update_payment d bsel m st now = Inr d' \<longrightarrow>
         d' = d\<lparr>payments := payments d'\<rparr>
         \<and> list_all2 (\<lambda>p p'. (p_booking_id p \<noteq> bsel \<longrightarrow> p' = p)
               \<and> p' = p\<lparr>p_method := p_method p', payment_status := payment_status p',
                        paid_at := paid_at p'\<rparr>)
             (payments d) (payments d')"
  proof (intro allI impI)
    fix d' assume "page_update_payment d bsel m st now = Inr d'"
    from page_update_payment_InrD[OF this] have d': "d' = update_payment d bsel m st now" by simp
    show "d' = d\<lparr>payments := payments d'\<rparr>
         \<and> list_all2 (\<lambda>p p'. (p_booking_id p \<noteq> bsel \<longrightarrow> p' = p)
               \<and> p' = p\<lparr>p_method := p_method p', payment_status := payment_status p',
                        paid_at := paid_at p'\<rparr>)
             (payments d) (payments d')"
      unfolding d' using update_payment_frame[of d bsel m st now] set_payment_three_fields[of bsel "payments d" m st now]
      by (simp add: update_payment_rows)
  qed
  from update_payments_keys[of d calls] update_payments_frame[of d calls] one
  show ?thesis by (intro conjI)
qed

theorem update_payment_touches_three_fields_witness:
  "update_payments demo_second
      [(1, Card, Paid, ''2025-12-27 10:45:00''), (1, Card, Refunded, ''2025-12-27 12:00:00'')]
    = demo_refunded
   \<and> map (\<lambda>p. (payment_id p, p_booking_id p, amount p)) (payments demo_second) = [(1, 1, 500), (2, 2, 800)]
   \<and> map (\<lambda>p. (payment_id p, p_booking_id p, amount p)) (payments demo_refunded) = [(1, 1, 500), (2, 2, 800)]
   \<and> page_update_payment demo_second 1 Card Paid ''2025-12-27 10:45:00'' = Inr demo_paid
   \<and> demo_paid = demo_second\<lparr>payments := payments demo_paid\<rparr>
   \<and> payments demo_paid ! 1 = payments demo_second ! 1"
proof -
  note inst = update_payment_touches_three_fields[of demo_second
      "[(1, Card, Paid, ''2025-12-27 10:45:00''), (1, Card, Refunded, ''2025-12-27 12:00:00'')]"
      1 Card Paid "''2025-12-27 10:45:00''"]
  from inst demo_paid_run have frame: "demo_paid = demo_second\<lparr>payments := payments demo_paid\<rparr>"
    by blast
  have rows: "map (\<lambda>p. (payment_id p, p_booking_id p, amount p)) (payments demo_second) = [(1, 1, 500), (2, 2, 800)]"
    by (simp add: demo_second_payments)
  from inst have "map (\<lambda>p. (payment_id p, p_booking_id p, amount p)) (payments demo_refunded)
      = map (\<lambda>p. (payment_id p, p_booking_id p, amount p)) (payments demo_second)"
    by (simp only: demo_two_updates)
  with rows have kept: "map (\<lambda>p. (payment_id p, p_booking_id p, amount p)) (payments demo_refunded) = [(1, 1, 500), (2, 2, 800)]"
    by simp
  have other: "payments demo_paid ! 1 = payments demo_second ! 1"
    by (simp add: demo_paid_eq demo_second_payments)
  from demo_two_updates rows kept demo_paid_run frame other show ?thesis by (intro conjI)
qed

text \<open>
  C8. On a table that respects its primary key, when Save Assignment commits for a
  booking and one staff member, the same request made again commits too, raises
  nothing and leaves the database as the first request left it; the table then holds
  exactly one row for the pair, and still respects its primary key.
\<close>

theorem assign_twice_one_row:
  assumes pk: "distinct (assignment_keys d)"
      and run: "page_save_assignment d bid [(sid, t1)] = Inr d1"
  shows "page_save_assignment d1 bid [(sid, t2)] = Inr d1
       \<and> length (filter (\<lambda>a. a_booking_id a = bid \<and> staff_id a = sid) (booking_staff_assignment d1)) = 1
       \<and> distinct (assignment_keys d1)"
proof -
  from run have form: "assignment_form d bid"
    and staff: "sid \<in> set (map user_id (staff_rows d))"
    and body: "save_assignment d bid [(sid, t1)] = Inr d1"
    by (simp_all add: page_save_assignment_def split: if_splits)
  from form have b: "bid \<in> set (map booking_id (bookings d))" by (simp add: assignment_form_def)
  from staff have s: "sid \<in> set (map user_id (users d))" by (rule staff_rows_users)
  show ?thesis
  proof (cases "(bid, sid) \<in> set (assignment_keys d)")
    case True
    with body have d1: "d1 = d" unfolding save_assignment_one by simp
    from True pk have "length (filter (\<lambda>a. a_booking_id a = bid \<and> staff_id a = sid) (booking_staff_assignment d)) = 1"
      unfolding assignment_keys_def by (simp add: one_row_per_key)
    moreover from True form staff have "page_save_assignment d bid [(sid, t2)] = Inr d"
      unfolding page_save_assignment_def save_assignment_one by simp
    ultimately show ?thesis using pk d1 by simp
  next
    case False
    let ?row = "\<lparr>a_booking_id = bid, staff_id = sid, assigned_at = t1\<rparr>"
    from False b s body have d1: "d1 = d\<lparr>booking_staff_assignment := booking_staff_assignment d @ [?row]\<rparr>"
      unfolding save_assignment_one by simp
    have keys: "assignment_keys d1 = assignment_keys d @ [(bid, sid)]"
      by (simp add: d1 assignment_keys_def)
    from False have "filter (\<lambda>a. a_booking_id a = bid \<and> staff_id a = sid) (booking_staff_assignment d) = []"
      unfolding assignment_keys_def by (rule no_row_without_key)
    then have one: "length (filter (\<lambda>a. a_booking_id a = bid \<and> staff_id a = sid) (booking_staff_assignment d1)) = 1"
      by (simp add: d1)
    from pk False have dist: "distinct (assignment_keys d1)" by (simp add: keys)
    from form staff have "page_save_assignment d1 bid [(sid, t2)] = Inr d1"
      unfolding page_save_assignment_def save_assignment_one keys by (simp add: d1)
    with one dist show ?thesis by simp
  qed
qed

theorem assign_twice_one_row_witness:
  "distinct (assignment_keys demo_booked)
   \<and> page_save_assignment demo_booked 1 [(3, ''2025-12-27 10:05:00'')] = Inr demo_assigned
   \<and> page_save_assignment demo_assigned 1 [(3, ''2025-12-27 10:06:00'')] = Inr demo_assigned
   \<and> map (\<lambda>a. (a_booking_id a, staff_id a, assigned_at a)) (booking_staff_assignment demo_assigned)
       = [(1, 3, ''2025-12-27 10:05:00'')]"
proof -
  have rows: "map (\<lambda>a. (a_booking_id a, staff_id a, assigned_at a)) (booking_staff_assignment demo_assigned)
       = [(1, 3, ''2025-12-27 10:05:00'')]"
    by (simp add: demo_assigned_eq)
  from assign_twice_one_row[OF demo_booked_keys demo_assigned_run, of "''2025-12-27 10:06:00''"]
  have "page_save_assignment demo_assigned 1 [(3, ''2025-12-27 10:06:00'')] = Inr demo_assigned"
    by blast
  with demo_booked_keys demo_assigned_run rows show ?thesis by (intro conjI)
qed



end
